theory Spec2Isabelle
  imports Main "HOL-Library.Word"
begin

unbundle bit_operations_syntax

section \<open>Machine types\<close>

type_synonym uint8_t = "8 word"
type_synonym int16_t = "16 word"
type_synonym uint32_t = "32 word"

text \<open>
  An \<open>int16_t\<close> is a 16-bit word read through \<open>sint\<close>; a \<open>uint8_t\<close> widened to
  \<open>int16_t\<close> is \<open>ucast\<close>. The sketches target the ESP32/ESP8266, where \<open>int\<close> and
  \<open>unsigned long\<close> are 32 bits wide.
\<close>

section \<open>TankShift: the ramp controller (TankShift.h, TankShift.cpp)\<close>

subsection \<open>The actuator boundary\<close>

text \<open>
  \<open>digitalWrite\<close> and \<open>analogWrite\<close> act on a store indexed by pin number: the level
  of every pin and the duty last written to it.
\<close>

record Hw =
  pinLevel :: "uint8_t \<Rightarrow> bool"
  pwmDuty :: "uint8_t \<Rightarrow> int"

definition digitalWrite :: "uint8_t \<Rightarrow> bool \<Rightarrow> Hw \<Rightarrow> Hw" where
  "digitalWrite pin level hw = hw\<lparr>pinLevel := (pinLevel hw)(pin := level)\<rparr>"

definition analogWrite :: "uint8_t \<Rightarrow> int \<Rightarrow> Hw \<Rightarrow> Hw" where
  "analogWrite pin val hw = hw\<lparr>pwmDuty := (pwmDuty hw)(pin := val)\<rparr>"

abbreviation (input) HIGH :: bool where "HIGH \<equiv> True"
abbreviation (input) LOW :: bool where "LOW \<equiv> False"

subsection \<open>class Tank\<close>

record Tank =
  leftIn1 :: uint8_t
  leftIn2 :: uint8_t
  leftPwm :: uint8_t
  rightIn1 :: uint8_t
  rightIn2 :: uint8_t
  rightPwm :: uint8_t
  targetLeftSpeed :: int16_t
  targetRightSpeed :: int16_t
  currentLeftSpeed :: int16_t
  currentRightSpeed :: int16_t
  rampStep :: uint8_t
  rampInterval :: uint8_t
  lastRampTime :: uint32_t

text \<open>The constructor, with the default member initialisers of the class.\<close>

definition new_Tank ::
  "uint8_t \<Rightarrow> uint8_t \<Rightarrow> uint8_t \<Rightarrow> uint8_t \<Rightarrow> uint8_t \<Rightarrow> uint8_t \<Rightarrow> Tank" where
  "new_Tank li1 li2 lp ri1 ri2 rp =
     \<lparr>leftIn1 = li1, leftIn2 = li2, leftPwm = lp,
      rightIn1 = ri1, rightIn2 = ri2, rightPwm = rp,
      targetLeftSpeed = 0, targetRightSpeed = 0,
      currentLeftSpeed = 0, currentRightSpeed = 0,
      rampStep = 10, rampInterval = 10, lastRampTime = 0\<rparr>"

definition setRamp :: "uint8_t \<Rightarrow> uint8_t \<Rightarrow> Tank \<Rightarrow> Tank" where
  "setRamp step interval t = t\<lparr>rampStep := step, rampInterval := interval\<rparr>"

text \<open>\<open>abs\<close> on an \<open>int16_t\<close>, the result stored back into an \<open>int16_t\<close>.\<close>

definition abs_i16 :: "int16_t \<Rightarrow> int16_t" where
  "abs_i16 x = (if 0 <s x then x else - x)"

definition setSpeed :: "uint8_t \<Rightarrow> uint8_t \<Rightarrow> Tank \<Rightarrow> Tank" where
  "setSpeed l r t =
     (let newLeft = (ucast l :: int16_t);
          newRight = (ucast r :: int16_t);
          newLeft = (if targetLeftSpeed t <s 0 then - newLeft else newLeft);
          newRight = (if targetRightSpeed t <s 0 then - newRight else newRight)
      in t\<lparr>targetLeftSpeed := newLeft, targetRightSpeed := newRight\<rparr>)"

definition forward :: "Tank \<Rightarrow> Tank" where
  "forward t = t\<lparr>targetLeftSpeed := abs_i16 (targetLeftSpeed t),
                 targetRightSpeed := abs_i16 (targetRightSpeed t)\<rparr>"

definition backward :: "Tank \<Rightarrow> Tank" where
  "backward t = t\<lparr>targetLeftSpeed := - abs_i16 (targetLeftSpeed t),
                  targetRightSpeed := - abs_i16 (targetRightSpeed t)\<rparr>"

definition left :: "Tank \<Rightarrow> Tank" where
  "left t = t\<lparr>targetLeftSpeed := - abs_i16 (targetLeftSpeed t),
              targetRightSpeed := abs_i16 (targetRightSpeed t)\<rparr>"

definition right :: "Tank \<Rightarrow> Tank" where
  "right t = t\<lparr>targetLeftSpeed := abs_i16 (targetLeftSpeed t),
               targetRightSpeed := - abs_i16 (targetRightSpeed t)\<rparr>"

definition stop :: "Tank \<Rightarrow> Tank" where
  "stop t = t\<lparr>targetLeftSpeed := 0, targetRightSpeed := 0\<rparr>"

text \<open>
  \<open>driveLeft\<close> and \<open>driveRight\<close>: three writes in the order of the source. The duty
  handed to \<open>analogWrite\<close> is an \<open>int\<close>: \<open>speed\<close>, or \<open>-speed\<close> after integer promotion.
\<close>

definition driveLeft :: "Tank \<Rightarrow> int16_t \<Rightarrow> Hw \<Rightarrow> Hw" where
  "driveLeft t speed hw =
     (if 0 <s speed then
        analogWrite (leftPwm t) (sint speed)
          (digitalWrite (leftIn2 t) LOW (digitalWrite (leftIn1 t) HIGH hw))
      else if speed <s 0 then
        analogWrite (leftPwm t) (- sint speed)
          (digitalWrite (leftIn2 t) HIGH (digitalWrite (leftIn1 t) LOW hw))
      else
        analogWrite (leftPwm t) 0
          (digitalWrite (leftIn2 t) LOW (digitalWrite (leftIn1 t) LOW hw)))"

definition driveRight :: "Tank \<Rightarrow> int16_t \<Rightarrow> Hw \<Rightarrow> Hw" where
  "driveRight t speed hw =
     (if 0 <s speed then
        analogWrite (rightPwm t) (sint speed)
          (digitalWrite (rightIn2 t) LOW (digitalWrite (rightIn1 t) HIGH hw))
      else if speed <s 0 then
        analogWrite (rightPwm t) (- sint speed)
          (digitalWrite (rightIn2 t) HIGH (digitalWrite (rightIn1 t) LOW hw))
      else
        analogWrite (rightPwm t) 0
          (digitalWrite (rightIn2 t) LOW (digitalWrite (rightIn1 t) LOW hw)))"

text \<open>\<open>min\<close> and \<open>max\<close> of two \<open>int16_t\<close> values compare them as signed numbers.\<close>

definition min_i16 :: "int16_t \<Rightarrow> int16_t \<Rightarrow> int16_t" where
  "min_i16 a b = (if a <s b then a else b)"

definition max_i16 :: "int16_t \<Rightarrow> int16_t \<Rightarrow> int16_t" where
  "max_i16 a b = (if b <s a then a else b)"

text \<open>
  One channel of \<open>update\<close>: \<open>(int16_t)(current + step)\<close> is the sum cut to 16 bits,
  which is the addition of 16-bit words.
\<close>

definition rampChannel :: "uint8_t \<Rightarrow> int16_t \<Rightarrow> int16_t \<Rightarrow> int16_t" where
  "rampChannel step cur tgt =
     (if cur <s tgt then min_i16 (cur + ucast step) tgt
      else if tgt <s cur then max_i16 (cur - ucast step) tgt
      else cur)"

text \<open>\<open>update\<close>, with the value \<open>millis()\<close> returns as the argument \<open>now\<close>.\<close>

definition update :: "uint32_t \<Rightarrow> Tank \<times> Hw \<Rightarrow> Tank \<times> Hw" where
  "update now s =
     (let t = fst s; hw = snd s in
      if now - lastRampTime t < ucast (rampInterval t) then (t, hw)
      else
        let t1 = t\<lparr>lastRampTime := now\<rparr>;
            t2 = t1\<lparr>currentLeftSpeed :=
                     rampChannel (rampStep t1) (currentLeftSpeed t1) (targetLeftSpeed t1)\<rparr>;
            t3 = t2\<lparr>currentRightSpeed :=
                     rampChannel (rampStep t2) (currentRightSpeed t2) (targetRightSpeed t2)\<rparr>;
            hw1 = driveLeft t3 (currentLeftSpeed t3) hw;
            hw2 = driveRight t3 (currentRightSpeed t3) hw1
        in (t3, hw2))"

text \<open>\<open>begin\<close>: \<open>pinMode\<close> configures the pins and leaves levels alone; then \<open>stop()\<close>.\<close>

definition tank_begin :: "Tank \<Rightarrow> Tank" where
  "tank_begin t = stop t"

text \<open>The control loop calls \<open>update\<close> once per pass; \<open>updates\<close> runs it at each of the
  given clock readings in turn.\<close>

fun updates :: "uint32_t list \<Rightarrow> Tank \<times> Hw \<Rightarrow> Tank \<times> Hw" where
  "updates [] s = s"
| "updates (now # nows) s = updates nows (update now s)"

text \<open>
  Every speed the class can hold lies in \<open>[-255, 255]\<close>: targets come from \<open>uint8_t\<close>
  magnitudes, and the current speeds start at zero and only move towards a target.
\<close>

definition speed_ok :: "int16_t \<Rightarrow> bool" where
  "speed_ok x = (- 255 \<le> sint x \<and> sint x \<le> 255)"

definition tank_inv :: "Tank \<Rightarrow> bool" where
  "tank_inv t = (speed_ok (targetLeftSpeed t) \<and> speed_ok (targetRightSpeed t) \<and>
                 speed_ok (currentLeftSpeed t) \<and> speed_ok (currentRightSpeed t))"

text \<open>The two targets as signed numbers, left then right.\<close>

definition targets :: "Tank \<Rightarrow> int \<times> int" where
  "targets t = (sint (targetLeftSpeed t), sint (targetRightSpeed t))"

text \<open>
  A list of clock readings at each of which \<open>update\<close> finds the ramp interval elapsed:
  the test of \<open>update\<close> against the time of the previous tick.
\<close>

fun elapsed_ticks :: "uint32_t list \<Rightarrow> uint32_t \<Rightarrow> uint8_t \<Rightarrow> bool" where
  "elapsed_ticks [] prev iv = True"
| "elapsed_ticks (now # nows) prev iv =
     (\<not> now - prev < ucast iv \<and> elapsed_ticks nows now iv)"

section \<open>The command set and the Bluetooth-to-LoRa gateway (tx_bluetooth sketch)\<close>

text \<open>The commands of \<open>TankControl::Command\<close>.\<close>

datatype Command = Stop | Forward | Backward | Left | Right | SetSpeed

text \<open>
  Modelled from the spec: the receiver's dispatch of an accepted command to the \<open>Tank\<close>
  object is not among the sources. The magnitudes come from the command's speed fields
  (\<open>setSpeed\<close>), the signs from the command type (the direction method, called on the
  new magnitudes); \<open>Stop\<close> zeroes both targets and \<open>SetSpeed\<close> changes magnitudes only.
\<close>

fun applyCommand :: "Command \<Rightarrow> uint8_t \<Rightarrow> uint8_t \<Rightarrow> Tank \<Rightarrow> Tank" where
  "applyCommand Stop l r t = stop t"
| "applyCommand Forward l r t = forward (setSpeed l r t)"
| "applyCommand Backward l r t = backward (setSpeed l r t)"
| "applyCommand Left l r t = left (setSpeed l r t)"
| "applyCommand Right l r t = right (setSpeed l r t)"
| "applyCommand SetSpeed l r t = setSpeed l r t"

record ControlFrame =
  command :: Command
  leftSpeed :: uint8_t
  rightSpeed :: uint8_t
  sequence :: uint8_t

text \<open>
  Modelled from the spec: \<open>TankControl::initFrame\<close> of \<open>common/ControlProtocol.h\<close> is not
  among the sources. It fills the frame with the command, the two speeds and the sequence
  number, the four fields \<open>sendLoRaFrame\<close> reads back.
\<close>

definition initFrame :: "Command \<Rightarrow> uint8_t \<Rightarrow> uint8_t \<Rightarrow> uint8_t \<Rightarrow> ControlFrame" where
  "initFrame cmd l r seq = \<lparr>command = cmd, leftSpeed = l, rightSpeed = r, sequence = seq\<rparr>"

text \<open>
  The two collaborators of \<open>sendLoRaFrame\<close> are parameters: \<open>encryptFrame\<close> (of the same
  missing header) yields the encrypted buffer or fails, and \<open>endPacket\<close> is the result of
  \<open>LoRa.endPacket()\<close>, given everything handed to the radio so far.
\<close>

record Radio_env =
  encryptFrame :: "ControlFrame \<Rightarrow> uint8_t list option"
  endPacket :: "uint8_t list list \<Rightarrow> int"

text \<open>
  The globals of the sketch, and \<open>loraSent\<close>: the buffers passed to \<open>LoRa.write\<close>, oldest
  first. The texts printed on \<open>Serial\<close> and \<open>SerialBT\<close> are not modelled.
\<close>

record Gateway =
  currentSpeed :: uint8_t
  currentState :: string
  lastCommandTime :: uint32_t
  sequenceCounter :: uint8_t
  loraSent :: "uint8_t list list"

definition initial_gateway :: Gateway where
  "initial_gateway =
     \<lparr>currentSpeed = 200, currentState = ''STOP'', lastCommandTime = 0,
      sequenceCounter = 0, loraSent = []\<rparr>"

definition COMMAND_TIMEOUT :: uint32_t where
  "COMMAND_TIMEOUT = 2000"

text \<open>The first statement of \<open>sendLoRaFrame\<close>: the frame takes the counter's value, and the
  counter is incremented (\<open>sequenceCounter++\<close> on a \<open>uint8_t\<close>).\<close>

definition buildFrame :: "Command \<Rightarrow> uint8_t \<Rightarrow> uint8_t \<Rightarrow> Gateway \<Rightarrow> ControlFrame \<times> Gateway" where
  "buildFrame cmd l r g =
     (initFrame cmd l r (sequenceCounter g), g\<lparr>sequenceCounter := sequenceCounter g + 1\<rparr>)"

definition sendLoRaFrame ::
  "Radio_env \<Rightarrow> Command \<Rightarrow> uint8_t \<Rightarrow> uint8_t \<Rightarrow> Gateway \<Rightarrow> bool \<times> Gateway" where
  "sendLoRaFrame env cmd l r g =
     (let frame = fst (buildFrame cmd l r g);
          g1 = snd (buildFrame cmd l r g)
      in case encryptFrame env frame of
           None \<Rightarrow> (False, g1)
         | Some encrypted \<Rightarrow>
             (let g2 = g1\<lparr>loraSent := loraSent g1 @ [encrypted]\<rparr>;
                  ok = (endPacket env (loraSent g2) = 1)
              in (ok, g2)))"

definition toupper :: "char \<Rightarrow> char" where
  "toupper c =
     (let n = (of_char c :: nat) in if 97 \<le> n \<and> n \<le> 122 then char_of (n - 32) else c)"

text \<open>
  \<open>min(255, currentSpeed + 25)\<close> and \<open>max(0, currentSpeed - 25)\<close> are computed on \<open>int\<close>
  after integer promotion; the assignment to the \<open>uint8_t\<close> cuts the result to 8 bits.
\<close>

definition speed_inc :: "uint8_t \<Rightarrow> int" where
  "speed_inc s = min 255 (uint s + 25)"

definition speed_dec :: "uint8_t \<Rightarrow> int" where
  "speed_dec s = max 0 (uint s - 25)"

text \<open>The \<open>switch\<close>: the command to send, if any, and the globals after the case.\<close>

definition switch_cmd :: "char \<Rightarrow> Gateway \<Rightarrow> Command option \<times> Gateway" where
  "switch_cmd cmd g =
     (if cmd = CHR ''W'' \<or> cmd = CHR ''F'' \<or> cmd = CHR ''8'' then
        (Some Forward, g\<lparr>currentState := ''FORWARD''\<rparr>)
      else if cmd = CHR ''S'' \<or> cmd = CHR ''B'' \<or> cmd = CHR ''2'' then
        (Some Backward, g\<lparr>currentState := ''BACKWARD''\<rparr>)
      else if cmd = CHR ''A'' \<or> cmd = CHR ''L'' \<or> cmd = CHR ''4'' then
        (Some Left, g\<lparr>currentState := ''LEFT''\<rparr>)
      else if cmd = CHR ''D'' \<or> cmd = CHR ''R'' \<or> cmd = CHR ''6'' then
        (Some Right, g\<lparr>currentState := ''RIGHT''\<rparr>)
      else if cmd = CHR ''X'' \<or> cmd = CHR '' '' \<or> cmd = CHR ''5'' then
        (Some Stop, g\<lparr>currentState := ''STOP''\<rparr>)
      else if cmd = CHR ''+'' \<or> cmd = CHR ''='' then
        (None, g\<lparr>currentSpeed := word_of_int (speed_inc (currentSpeed g))\<rparr>)
      else if cmd = CHR ''-'' \<or> cmd = CHR ''_'' then
        (None, g\<lparr>currentSpeed := word_of_int (speed_dec (currentSpeed g))\<rparr>)
      else if cmd = CHR ''1'' then (None, g\<lparr>currentSpeed := 100\<rparr>)
      else if cmd = CHR ''3'' then (None, g\<lparr>currentSpeed := 200\<rparr>)
      else if cmd = CHR ''9'' then (None, g\<lparr>currentSpeed := 255\<rparr>)
      else (None, g))"

definition handleBluetoothCommand :: "Radio_env \<Rightarrow> char \<Rightarrow> Gateway \<Rightarrow> Gateway" where
  "handleBluetoothCommand env c g =
     (let cmd = toupper c;
          loraCmd = fst (switch_cmd cmd g);
          g1 = snd (switch_cmd cmd g)
      in case loraCmd of
           None \<Rightarrow> g1
         | Some lc \<Rightarrow> snd (sendLoRaFrame env lc (currentSpeed g1) (currentSpeed g1) g1))"

text \<open>
  One pass of \<open>loop\<close>: \<open>bt\<close> is the byte read from Bluetooth when one is available,
  \<open>t_cmd\<close> and \<open>t_chk\<close> are the values of the two \<open>millis()\<close> calls.
\<close>

definition loop :: "Radio_env \<Rightarrow> char option \<Rightarrow> uint32_t \<Rightarrow> uint32_t \<Rightarrow> Gateway \<Rightarrow> Gateway" where
  "loop env bt t_cmd t_chk g =
     (let g1 = (case bt of
                  None \<Rightarrow> g
                | Some cmd \<Rightarrow> (handleBluetoothCommand env cmd g)\<lparr>lastCommandTime := t_cmd\<rparr>)
      in if COMMAND_TIMEOUT < t_chk - lastCommandTime g1 \<and> currentState g1 \<noteq> ''STOP'' then
           (snd (sendLoRaFrame env Stop 0 0 g1))\<lparr>currentState := ''STOP (TIMEOUT)''\<rparr>
         else g1)"

text \<open>Successive passes of \<open>loop\<close>, and successive Bluetooth bytes.\<close>

fun loops :: "Radio_env \<Rightarrow> (char option \<times> uint32_t \<times> uint32_t) list \<Rightarrow> Gateway \<Rightarrow> Gateway" where
  "loops env [] g = g"
| "loops env ((bt, t_cmd, t_chk) # ps) g = loops env ps (loop env bt t_cmd t_chk g)"

fun handleAll :: "Radio_env \<Rightarrow> char list \<Rightarrow> Gateway \<Rightarrow> Gateway" where
  "handleAll env [] g = g"
| "handleAll env (c # cs) g = handleAll env cs (handleBluetoothCommand env c g)"

text \<open>A radio that always works, for concrete runs: the "encryption" lists the frame's
  fields, and \<open>endPacket\<close> reports success.\<close>

fun command_code :: "Command \<Rightarrow> uint8_t" where
  "command_code Stop = 0"
| "command_code Forward = 1"
| "command_code Backward = 2"
| "command_code Left = 3"
| "command_code Right = 4"
| "command_code SetSpeed = 5"

definition test_env :: Radio_env where
  "test_env =
     \<lparr>encryptFrame = (\<lambda>f. Some [command_code (command f), leftSpeed f, rightSpeed f, sequence f]),
      endPacket = (\<lambda>_. 1)\<rparr>"

text \<open>A radio whose encryption step always fails, and one whose transmissions fail.\<close>

definition broken_env :: Radio_env where
  "broken_env = \<lparr>encryptFrame = (\<lambda>_. None), endPacket = (\<lambda>_. 1)\<rparr>"

definition silent_env :: Radio_env where
  "silent_env =
     \<lparr>encryptFrame = (\<lambda>f. Some [command_code (command f), leftSpeed f, rightSpeed f, sequence f]),
      endPacket = (\<lambda>_. 0)\<rparr>"

text \<open>A hardware store with every pin low and every duty zero.\<close>

definition hw0 :: Hw where
  "hw0 = \<lparr>pinLevel = (\<lambda>_. LOW), pwmDuty = (\<lambda>_. 0)\<rparr>"

text \<open>A radio on which the second transmission, and only that one, fails.\<close>

definition lossy_env :: Radio_env where
  "lossy_env =
     \<lparr>encryptFrame = (\<lambda>f. Some [command_code (command f), leftSpeed f, rightSpeed f, sequence f]),
      endPacket = (\<lambda>log. if length log = 2 then 0 else 1)\<rparr>"

text \<open>
  The stored speed as the help text of the sketch describes it, on unbounded integers:
  \<open>+\<close> and \<open>=\<close> add 25 up to 255, \<open>-\<close> and \<open>_\<close> subtract 25 down to 0, the presets
  \<open>1\<close>, \<open>3\<close>, \<open>9\<close> give 100, 200, 255, and every other byte leaves the speed alone.
\<close>

definition spec_speed_after :: "char \<Rightarrow> int \<Rightarrow> int" where
  "spec_speed_after c v =
     (if c = CHR ''+'' \<or> c = CHR ''='' then min 255 (v + 25)
      else if c = CHR ''-'' \<or> c = CHR ''_'' then max 0 (v - 25)
      else if c = CHR ''1'' then 100
      else if c = CHR ''3'' then 200
      else if c = CHR ''9'' then 255
      else v)"

fun spec_speed_after_all :: "char list \<Rightarrow> int \<Rightarrow> int" where
  "spec_speed_after_all [] v = v"
| "spec_speed_after_all (c # cs) v = spec_speed_after_all cs (spec_speed_after c v)"

text \<open>
  The writes of \<open>driveLeft\<close>, \<open>driveRight\<close> and \<open>update\<close> one at a time, in the order of the
  source, so that the hardware state between two writes can be read: \<open>hw_trace\<close> lists the
  state after each write, \<open>run_writes\<close> gives the state after the last.
\<close>

datatype Write = DigitalWrite uint8_t bool | AnalogWrite uint8_t int

fun perform :: "Write \<Rightarrow> Hw \<Rightarrow> Hw" where
  "perform (DigitalWrite pin level) hw = digitalWrite pin level hw"
| "perform (AnalogWrite pin val) hw = analogWrite pin val hw"

fun hw_trace :: "Write list \<Rightarrow> Hw \<Rightarrow> Hw list" where
  "hw_trace [] hw = []"
| "hw_trace (w # ws) hw = perform w hw # hw_trace ws (perform w hw)"

fun run_writes :: "Write list \<Rightarrow> Hw \<Rightarrow> Hw" where
  "run_writes [] hw = hw"
| "run_writes (w # ws) hw = run_writes ws (perform w hw)"

definition driveLeft_writes :: "Tank \<Rightarrow> int16_t \<Rightarrow> Write list" where
  "driveLeft_writes t speed =
     (if 0 <s speed then
        [DigitalWrite (leftIn1 t) HIGH, DigitalWrite (leftIn2 t) LOW,
         AnalogWrite (leftPwm t) (sint speed)]
      else if speed <s 0 then
        [DigitalWrite (leftIn1 t) LOW, DigitalWrite (leftIn2 t) HIGH,
         AnalogWrite (leftPwm t) (- sint speed)]
      else
        [DigitalWrite (leftIn1 t) LOW, DigitalWrite (leftIn2 t) LOW,
         AnalogWrite (leftPwm t) 0])"

definition driveRight_writes :: "Tank \<Rightarrow> int16_t \<Rightarrow> Write list" where
  "driveRight_writes t speed =
     (if 0 <s speed then
        [DigitalWrite (rightIn1 t) HIGH, DigitalWrite (rightIn2 t) LOW,
         AnalogWrite (rightPwm t) (sint speed)]
      else if speed <s 0 then
        [DigitalWrite (rightIn1 t) LOW, DigitalWrite (rightIn2 t) HIGH,
         AnalogWrite (rightPwm t) (- sint speed)]
      else
        [DigitalWrite (rightIn1 t) LOW, DigitalWrite (rightIn2 t) LOW,
         AnalogWrite (rightPwm t) 0])"

definition update_writes :: "uint32_t \<Rightarrow> Tank \<Rightarrow> Write list" where
  "update_writes now t =
     (if now - lastRampTime t < ucast (rampInterval t) then []
      else
        driveLeft_writes t (rampChannel (rampStep t) (currentLeftSpeed t) (targetLeftSpeed t)) @
        driveRight_writes t (rampChannel (rampStep t) (currentRightSpeed t) (targetRightSpeed t)))"

definition left_both_high :: "Tank \<Rightarrow> Hw \<Rightarrow> bool" where
  "left_both_high t hw = (pinLevel hw (leftIn1 t) \<and> pinLevel hw (leftIn2 t))"

definition right_both_high :: "Tank \<Rightarrow> Hw \<Rightarrow> bool" where
  "right_both_high t hw = (pinLevel hw (rightIn1 t) \<and> pinLevel hw (rightIn2 t))"

text \<open>
  What one call of \<open>sendLoRaFrame\<close> on a frame hands to the radio: the encrypted buffer,
  or nothing when the encryption fails. \<open>sendAll\<close> is a run of calls. \<open>spec_frames\<close> are the
  frames the spec asks for: the commands in order, numbered upwards from a start value in
  8-bit arithmetic.
\<close>

definition handed_over :: "Radio_env \<Rightarrow> ControlFrame \<Rightarrow> uint8_t list list" where
  "handed_over env f = (case encryptFrame env f of None \<Rightarrow> [] | Some e \<Rightarrow> [e])"

fun sendAll :: "Radio_env \<Rightarrow> (Command \<times> uint8_t \<times> uint8_t) list \<Rightarrow> Gateway \<Rightarrow> Gateway" where
  "sendAll env [] g = g"
| "sendAll env ((c, l, r) # cs) g = sendAll env cs (snd (sendLoRaFrame env c l r g))"

fun spec_frames :: "uint8_t \<Rightarrow> (Command \<times> uint8_t \<times> uint8_t) list \<Rightarrow> ControlFrame list" where
  "spec_frames s [] = []"
| "spec_frames s ((c, l, r) # cs) = initFrame c l r s # spec_frames (s + 1) cs"

text \<open>What the command-side methods must leave alone: the current speeds, the ramp
  parameters and the pin numbers, that is every field but the two targets.\<close>

definition ramp_side_kept :: "Tank \<Rightarrow> Tank \<Rightarrow> bool" where
  "ramp_side_kept t t' =
     (currentLeftSpeed t' = currentLeftSpeed t \<and> currentRightSpeed t' = currentRightSpeed t \<and>
      rampStep t' = rampStep t \<and> rampInterval t' = rampInterval t \<and>
      lastRampTime t' = lastRampTime t \<and>
      leftIn1 t' = leftIn1 t \<and> leftIn2 t' = leftIn2 t \<and> leftPwm t' = leftPwm t \<and>
      rightIn1 t' = rightIn1 t \<and> rightIn2 t' = rightIn2 t \<and> rightPwm t' = rightPwm t)"

section \<open>Properties of the ramp controller\<close>

lemma uint_u8_bounds: "0 \<le> uint (x :: uint8_t) \<and> uint x \<le> 255"
  using uint_lt2p [of x] by simp

lemma uint_u8_i16:
  "- 32768 < uint (x :: uint8_t)" "- 32768 \<le> uint x" "uint x < 32768" "uint x \<le> 32767"
  using uint_u8_bounds [of x] by linarith+

lemma sint_ucast_u8: "sint (ucast (x :: uint8_t) :: int16_t) = uint x"
proof -
  have "- 32768 \<le> uint x \<and> uint x < 32768"
    using uint_u8_bounds [of x] by linarith
  then show ?thesis
    by (simp add: signed_ucast_eq signed_take_bit_int_eq_self_iff)
qed

lemma sint_add_i16:
  "- 32768 \<le> sint a + sint b \<Longrightarrow> sint a + sint b < 32768 \<Longrightarrow>
   sint (a + b :: int16_t) = sint a + sint b"
  by (simp add: sint_word_ariths signed_take_bit_int_eq_self_iff)

lemma sint_sub_i16:
  "- 32768 \<le> sint a - sint b \<Longrightarrow> sint a - sint b < 32768 \<Longrightarrow>
   sint (a - b :: int16_t) = sint a - sint b"
  by (simp add: sint_word_ariths signed_take_bit_int_eq_self_iff)

lemma sint_neg_i16:
  "- 32768 < sint a \<Longrightarrow> sint (- a :: int16_t) = - sint a"
  using sint_lt [of a]
  by (simp add: sint_word_ariths signed_take_bit_int_eq_self_iff)

lemma sless_i16: "(a <s b) = (sint a < sint (b::int16_t))"
  by (simp add: word_sless_alt)

lemma sint_neg_ucast_u8: "sint (- (ucast (x :: uint8_t) :: int16_t)) = - uint x"
  by (simp add: sint_neg_i16 sint_ucast_u8 uint_u8_i16)

lemma sint_abs_i16: "- 32768 < sint x \<Longrightarrow> sint (abs_i16 x) = \<bar>sint x\<bar>"
  by (simp add: abs_i16_def sless_i16 sint_neg_i16)

lemma sint_neg_abs_i16: "- 32768 < sint x \<Longrightarrow> sint (- abs_i16 x) = - \<bar>sint x\<bar>"
  by (simp add: abs_i16_def sless_i16 sint_neg_i16)

lemma setSpeed_targetLeft:
  "sint (targetLeftSpeed (setSpeed l r t)) =
     (if sint (targetLeftSpeed t) < 0 then - uint l else uint l)"
  by (simp add: setSpeed_def Let_def sless_i16 sint_ucast_u8 sint_neg_ucast_u8)

lemma setSpeed_targetRight:
  "sint (targetRightSpeed (setSpeed l r t)) =
     (if sint (targetRightSpeed t) < 0 then - uint r else uint r)"
  by (simp add: setSpeed_def Let_def sless_i16 sint_ucast_u8 sint_neg_ucast_u8)

lemma setSpeed_target_bounds:
  "- 32768 < sint (targetLeftSpeed (setSpeed l r t)) \<and>
   - 32768 < sint (targetRightSpeed (setSpeed l r t))"
  by (simp add: setSpeed_targetLeft setSpeed_targetRight uint_u8_i16)

lemma abs_setSpeed_targetLeft:
  "\<bar>sint (targetLeftSpeed (setSpeed l r t))\<bar> = uint l"
  using uint_u8_bounds [of l] by (simp add: setSpeed_targetLeft)

lemma abs_setSpeed_targetRight:
  "\<bar>sint (targetRightSpeed (setSpeed l r t))\<bar> = uint r"
  using uint_u8_bounds [of r] by (simp add: setSpeed_targetRight)

lemma forward_targets:
  "- 32768 < sint (targetLeftSpeed t) \<Longrightarrow> - 32768 < sint (targetRightSpeed t) \<Longrightarrow>
   sint (targetLeftSpeed (forward t)) = \<bar>sint (targetLeftSpeed t)\<bar> \<and>
   sint (targetRightSpeed (forward t)) = \<bar>sint (targetRightSpeed t)\<bar>"
  by (simp add: forward_def sint_abs_i16)

lemma backward_targets:
  "- 32768 < sint (targetLeftSpeed t) \<Longrightarrow> - 32768 < sint (targetRightSpeed t) \<Longrightarrow>
   sint (targetLeftSpeed (backward t)) = - \<bar>sint (targetLeftSpeed t)\<bar> \<and>
   sint (targetRightSpeed (backward t)) = - \<bar>sint (targetRightSpeed t)\<bar>"
  by (simp add: backward_def sint_neg_abs_i16)

lemma left_targets:
  "- 32768 < sint (targetLeftSpeed t) \<Longrightarrow> - 32768 < sint (targetRightSpeed t) \<Longrightarrow>
   sint (targetLeftSpeed (left t)) = - \<bar>sint (targetLeftSpeed t)\<bar> \<and>
   sint (targetRightSpeed (left t)) = \<bar>sint (targetRightSpeed t)\<bar>"
  by (simp add: left_def sint_abs_i16 sint_neg_abs_i16)

lemma right_targets:
  "- 32768 < sint (targetLeftSpeed t) \<Longrightarrow> - 32768 < sint (targetRightSpeed t) \<Longrightarrow>
   sint (targetLeftSpeed (right t)) = \<bar>sint (targetLeftSpeed t)\<bar> \<and>
   sint (targetRightSpeed (right t)) = - \<bar>sint (targetRightSpeed t)\<bar>"
  by (simp add: right_def sint_abs_i16 sint_neg_abs_i16)

lemma stop_targets: "targetLeftSpeed (stop t) = 0 \<and> targetRightSpeed (stop t) = 0"
  by (simp add: stop_def)

lemma targets_forward_setSpeed: "targets (forward (setSpeed l r t)) = (uint l, uint r)"
  using forward_targets [of "setSpeed l r t"] setSpeed_target_bounds [of l r t]
  by (simp add: targets_def abs_setSpeed_targetLeft abs_setSpeed_targetRight)

lemma targets_backward_setSpeed: "targets (backward (setSpeed l r t)) = (- uint l, - uint r)"
  using backward_targets [of "setSpeed l r t"] setSpeed_target_bounds [of l r t]
  by (simp add: targets_def abs_setSpeed_targetLeft abs_setSpeed_targetRight)

lemma targets_left_setSpeed: "targets (left (setSpeed l r t)) = (- uint l, uint r)"
  using left_targets [of "setSpeed l r t"] setSpeed_target_bounds [of l r t]
  by (simp add: targets_def abs_setSpeed_targetLeft abs_setSpeed_targetRight)

lemma targets_right_setSpeed: "targets (right (setSpeed l r t)) = (uint l, - uint r)"
  using right_targets [of "setSpeed l r t"] setSpeed_target_bounds [of l r t]
  by (simp add: targets_def abs_setSpeed_targetLeft abs_setSpeed_targetRight)

lemma speed_ok_0: "speed_ok 0"
  by (simp add: speed_ok_def)

lemma sint_add_step:
  assumes "speed_ok cur"
  shows "sint (cur + ucast (step :: uint8_t)) = sint cur + uint step"
proof -
  have "- 255 \<le> sint cur" "sint cur \<le> 255"
    using assms by (simp_all add: speed_ok_def)
  moreover have "0 \<le> uint step" "uint step \<le> 255"
    using uint_u8_bounds [of step] by simp_all
  ultimately have "- 32768 \<le> sint cur + sint (ucast step :: int16_t)"
    and "sint cur + sint (ucast step :: int16_t) < 32768"
    unfolding sint_ucast_u8 by linarith+
  then have "sint (cur + ucast step) = sint cur + sint (ucast step :: int16_t)"
    by (rule sint_add_i16)
  then show ?thesis by (simp only: sint_ucast_u8)
qed

lemma sint_sub_step:
  assumes "speed_ok cur"
  shows "sint (cur - ucast (step :: uint8_t)) = sint cur - uint step"
proof -
  have "- 255 \<le> sint cur" "sint cur \<le> 255"
    using assms by (simp_all add: speed_ok_def)
  moreover have "0 \<le> uint step" "uint step \<le> 255"
    using uint_u8_bounds [of step] by simp_all
  ultimately have "- 32768 \<le> sint cur - sint (ucast step :: int16_t)"
    and "sint cur - sint (ucast step :: int16_t) < 32768"
    unfolding sint_ucast_u8 by linarith+
  then have "sint (cur - ucast step) = sint cur - sint (ucast step :: int16_t)"
    by (rule sint_sub_i16)
  then show ?thesis by (simp only: sint_ucast_u8)
qed

lemma sint_rampChannel:
  "speed_ok cur \<Longrightarrow>
   sint (rampChannel step cur tgt) =
     (if sint cur < sint tgt then min (sint cur + uint step) (sint tgt)
      else if sint tgt < sint cur then max (sint cur - uint step) (sint tgt)
      else sint cur)"
  by (simp add: rampChannel_def min_i16_def max_i16_def sless_i16
      sint_add_step sint_sub_step min_def max_def)

text \<open>One ramp step seen on the integers: towards the target, by at most the step,
  and never past the target.\<close>

lemma rampChannel_step:
  assumes "speed_ok cur"
  shows "\<bar>sint (rampChannel step cur tgt) - sint cur\<bar> \<le> uint step"
    and "\<bar>sint tgt - sint (rampChannel step cur tgt)\<bar> =
           max 0 (\<bar>sint tgt - sint cur\<bar> - uint step)"
    and "min (sint cur) (sint tgt) \<le> sint (rampChannel step cur tgt)"
    and "sint (rampChannel step cur tgt) \<le> max (sint cur) (sint tgt)"
proof -
  have s: "0 \<le> uint step" by simp
  let ?n = "sint (rampChannel step cur tgt)"
  consider (up) "sint cur < sint tgt" | (down) "sint tgt < sint cur" | (eq) "sint cur = sint tgt"
    by linarith
  then have "\<bar>?n - sint cur\<bar> \<le> uint step \<and>
      \<bar>sint tgt - ?n\<bar> = max 0 (\<bar>sint tgt - sint cur\<bar> - uint step) \<and>
      min (sint cur) (sint tgt) \<le> ?n \<and> ?n \<le> max (sint cur) (sint tgt)"
  proof cases
    case up
    then have "?n = min (sint cur + uint step) (sint tgt)"
      using sint_rampChannel [OF assms, of step tgt] by simp
    with up s show ?thesis by linarith
  next
    case down
    then have "?n = max (sint cur - uint step) (sint tgt)"
      using sint_rampChannel [OF assms, of step tgt] by simp
    with down s show ?thesis by linarith
  next
    case eq
    then have "?n = sint cur"
      using sint_rampChannel [OF assms, of step tgt] by simp
    with eq s show ?thesis by linarith
  qed
  then show "\<bar>?n - sint cur\<bar> \<le> uint step"
    and "\<bar>sint tgt - ?n\<bar> = max 0 (\<bar>sint tgt - sint cur\<bar> - uint step)"
    and "min (sint cur) (sint tgt) \<le> ?n"
    and "?n \<le> max (sint cur) (sint tgt)"
    by simp_all
qed

lemma speed_ok_rampChannel:
  assumes "speed_ok cur" and "speed_ok tgt"
  shows "speed_ok (rampChannel step cur tgt)"
  using rampChannel_step(3,4) [OF assms(1), where step = step and tgt = tgt] assms
  unfolding speed_ok_def by linarith

lemma update_elapsed_fields:
  assumes "\<not> now - lastRampTime t < ucast (rampInterval t)"
  shows "currentLeftSpeed (fst (update now (t, hw))) =
           rampChannel (rampStep t) (currentLeftSpeed t) (targetLeftSpeed t)"
    and "currentRightSpeed (fst (update now (t, hw))) =
           rampChannel (rampStep t) (currentRightSpeed t) (targetRightSpeed t)"
    and "targetLeftSpeed (fst (update now (t, hw))) = targetLeftSpeed t"
    and "targetRightSpeed (fst (update now (t, hw))) = targetRightSpeed t"
    and "rampStep (fst (update now (t, hw))) = rampStep t"
    and "rampInterval (fst (update now (t, hw))) = rampInterval t"
    and "lastRampTime (fst (update now (t, hw))) = now"
  using assms by (simp_all add: update_def Let_def)

lemma update_waiting:
  "now - lastRampTime t < ucast (rampInterval t) \<Longrightarrow> update now (t, hw) = (t, hw)"
  by (simp add: update_def Let_def)

lemma tank_inv_new: "tank_inv (new_Tank a b c d e f)"
  by (simp add: tank_inv_def new_Tank_def speed_ok_def)

lemma speed_ok_ucast: "speed_ok (ucast (x :: uint8_t))"
  using uint_u8_bounds [of x] unfolding speed_ok_def sint_ucast_u8 by linarith

lemma speed_ok_neg: "speed_ok x \<Longrightarrow> speed_ok (- x)"
  by (simp add: speed_ok_def sint_neg_i16)

lemma speed_ok_abs: "speed_ok x \<Longrightarrow> speed_ok (abs_i16 x)"
  by (simp add: abs_i16_def speed_ok_neg)

lemma tank_inv_setSpeed: "tank_inv t \<Longrightarrow> tank_inv (setSpeed l r t)"
  by (simp add: tank_inv_def setSpeed_def Let_def speed_ok_neg speed_ok_ucast)

lemma tank_inv_forward: "tank_inv t \<Longrightarrow> tank_inv (forward t)"
  by (simp add: tank_inv_def forward_def speed_ok_abs)

lemma tank_inv_backward: "tank_inv t \<Longrightarrow> tank_inv (backward t)"
  by (simp add: tank_inv_def backward_def speed_ok_abs speed_ok_neg)

lemma tank_inv_left: "tank_inv t \<Longrightarrow> tank_inv (left t)"
  by (simp add: tank_inv_def left_def speed_ok_abs speed_ok_neg)

lemma tank_inv_right: "tank_inv t \<Longrightarrow> tank_inv (right t)"
  by (simp add: tank_inv_def right_def speed_ok_abs speed_ok_neg)

lemma tank_inv_stop: "tank_inv t \<Longrightarrow> tank_inv (stop t)"
  by (simp add: tank_inv_def stop_def speed_ok_0)

lemma tank_inv_setRamp: "tank_inv t \<Longrightarrow> tank_inv (setRamp s i t)"
  by (simp add: tank_inv_def setRamp_def)

lemma tank_inv_update: "tank_inv t \<Longrightarrow> tank_inv (fst (update now (t, hw)))"
  by (cases "now - lastRampTime t < ucast (rampInterval t)")
     (simp_all add: update_waiting tank_inv_def update_elapsed_fields speed_ok_rampChannel)

text \<open>The ramp in closed form: \<open>k\<close> steps on one channel.\<close>

lemma rampChannel_funpow_up:
  assumes "speed_ok cur" and "speed_ok tgt" and "sint cur \<le> sint tgt"
  shows "sint (((\<lambda>c. rampChannel step c tgt) ^^ k) cur) =
           min (sint cur + int k * uint step) (sint tgt) \<and>
         speed_ok (((\<lambda>c. rampChannel step c tgt) ^^ k) cur)"
proof (induction k)
  case 0
  with assms show ?case by simp
next
  case (Suc k)
  let ?c = "((\<lambda>c. rampChannel step c tgt) ^^ k) cur"
  have ok: "speed_ok ?c" and v: "sint ?c = min (sint cur + int k * uint step) (sint tgt)"
    using Suc.IH by simp_all
  have s: "0 \<le> uint step" by simp
  have m: "int (Suc k) * uint step = int k * uint step + uint step"
    by (simp add: algebra_simps)
  have p: "0 \<le> int k * uint step" by simp
  have "sint (rampChannel step ?c tgt) =
          min (sint cur + int (Suc k) * uint step) (sint tgt)"
  proof (cases "sint ?c < sint tgt")
    case True
    then have "sint (rampChannel step ?c tgt) = min (sint ?c + uint step) (sint tgt)"
      using sint_rampChannel [OF ok, of step tgt] by simp
    with True v s p show ?thesis unfolding m by linarith
  next
    case False
    with v have e: "sint ?c = sint tgt" by linarith
    then have "sint (rampChannel step ?c tgt) = sint tgt"
      using sint_rampChannel [OF ok, of step tgt] by simp
    with e v s p show ?thesis unfolding m by linarith
  qed
  then show ?case
    using speed_ok_rampChannel [OF ok assms(2), of step] by simp
qed

lemma updates_elapsed_left:
  "elapsed_ticks nows (lastRampTime t) (rampInterval t) \<Longrightarrow>
   currentLeftSpeed (fst (updates nows (t, hw))) =
     ((\<lambda>c. rampChannel (rampStep t) c (targetLeftSpeed t)) ^^ length nows) (currentLeftSpeed t)"
proof (induction nows arbitrary: t hw)
  case Nil
  then show ?case by simp
next
  case (Cons now nows)
  obtain t' hw' where u: "update now (t, hw) = (t', hw')" by (cases "update now (t, hw)")
  have el: "\<not> now - lastRampTime t < ucast (rampInterval t)"
    and rest: "elapsed_ticks nows now (rampInterval t)"
    using Cons.prems by simp_all
  have f: "currentLeftSpeed t' = rampChannel (rampStep t) (currentLeftSpeed t) (targetLeftSpeed t)"
    "targetLeftSpeed t' = targetLeftSpeed t" "rampStep t' = rampStep t"
    "rampInterval t' = rampInterval t" "lastRampTime t' = now"
    using update_elapsed_fields [OF el, of hw] u by simp_all
  have "currentLeftSpeed (fst (updates nows (t', hw'))) =
     ((\<lambda>c. rampChannel (rampStep t') c (targetLeftSpeed t')) ^^ length nows) (currentLeftSpeed t')"
    using Cons.IH [of t' hw'] rest f by simp
  moreover have "((\<lambda>c. rampChannel (rampStep t) c (targetLeftSpeed t)) ^^ Suc (length nows))
      (currentLeftSpeed t) =
     ((\<lambda>c. rampChannel (rampStep t) c (targetLeftSpeed t)) ^^ length nows)
      (rampChannel (rampStep t) (currentLeftSpeed t) (targetLeftSpeed t))"
    by (simp add: funpow_Suc_right del: funpow.simps)
  ultimately show ?case
    using u f by (simp del: funpow.simps)
qed

lemma updates_elapsed_right:
  "elapsed_ticks nows (lastRampTime t) (rampInterval t) \<Longrightarrow>
   currentRightSpeed (fst (updates nows (t, hw))) =
     ((\<lambda>c. rampChannel (rampStep t) c (targetRightSpeed t)) ^^ length nows) (currentRightSpeed t)"
proof (induction nows arbitrary: t hw)
  case Nil
  then show ?case by simp
next
  case (Cons now nows)
  obtain t' hw' where u: "update now (t, hw) = (t', hw')" by (cases "update now (t, hw)")
  have el: "\<not> now - lastRampTime t < ucast (rampInterval t)"
    and rest: "elapsed_ticks nows now (rampInterval t)"
    using Cons.prems by simp_all
  have f: "currentRightSpeed t' = rampChannel (rampStep t) (currentRightSpeed t) (targetRightSpeed t)"
    "targetRightSpeed t' = targetRightSpeed t" "rampStep t' = rampStep t"
    "rampInterval t' = rampInterval t" "lastRampTime t' = now"
    using update_elapsed_fields [OF el, of hw] u by simp_all
  have "currentRightSpeed (fst (updates nows (t', hw'))) =
     ((\<lambda>c. rampChannel (rampStep t') c (targetRightSpeed t')) ^^ length nows) (currentRightSpeed t')"
    using Cons.IH [of t' hw'] rest f by simp
  moreover have "((\<lambda>c. rampChannel (rampStep t) c (targetRightSpeed t)) ^^ Suc (length nows))
      (currentRightSpeed t) =
     ((\<lambda>c. rampChannel (rampStep t) c (targetRightSpeed t)) ^^ length nows)
      (rampChannel (rampStep t) (currentRightSpeed t) (targetRightSpeed t))"
    by (simp add: funpow_Suc_right del: funpow.simps)
  ultimately show ?case
    using u f by (simp del: funpow.simps)
qed

lemma ramp_0_to_100:
  "sint (((\<lambda>c. rampChannel 10 c 100) ^^ k) 0) = min (10 * int k) 100"
proof -
  have "speed_ok (0 :: int16_t)" "speed_ok (100 :: int16_t)" "sint (0 :: int16_t) \<le> sint (100 :: int16_t)"
    by (simp_all add: speed_ok_def)
  from rampChannel_funpow_up [OF this, where step = 10 and k = k] show ?thesis
    by (simp add: mult.commute)
qed

lemma update_step_left:
  assumes "tank_inv t" and "\<not> now - lastRampTime t < ucast (rampInterval t)"
  shows "\<bar>sint (currentLeftSpeed (fst (update now (t, hw)))) - sint (currentLeftSpeed t)\<bar>
           \<le> uint (rampStep t) \<and>
         \<bar>sint (targetLeftSpeed t) - sint (currentLeftSpeed (fst (update now (t, hw))))\<bar> =
           max 0 (\<bar>sint (targetLeftSpeed t) - sint (currentLeftSpeed t)\<bar> - uint (rampStep t)) \<and>
         min (sint (currentLeftSpeed t)) (sint (targetLeftSpeed t))
           \<le> sint (currentLeftSpeed (fst (update now (t, hw)))) \<and>
         sint (currentLeftSpeed (fst (update now (t, hw))))
           \<le> max (sint (currentLeftSpeed t)) (sint (targetLeftSpeed t))"
proof -
  have ok: "speed_ok (currentLeftSpeed t)" using assms(1) by (simp add: tank_inv_def)
  show ?thesis
    unfolding update_elapsed_fields(1) [OF assms(2)]
    using rampChannel_step [OF ok, where step = "rampStep t" and tgt = "targetLeftSpeed t"] by blast
qed

lemma update_step_right:
  assumes "tank_inv t" and "\<not> now - lastRampTime t < ucast (rampInterval t)"
  shows "\<bar>sint (currentRightSpeed (fst (update now (t, hw)))) - sint (currentRightSpeed t)\<bar>
           \<le> uint (rampStep t) \<and>
         \<bar>sint (targetRightSpeed t) - sint (currentRightSpeed (fst (update now (t, hw))))\<bar> =
           max 0 (\<bar>sint (targetRightSpeed t) - sint (currentRightSpeed t)\<bar> - uint (rampStep t)) \<and>
         min (sint (currentRightSpeed t)) (sint (targetRightSpeed t))
           \<le> sint (currentRightSpeed (fst (update now (t, hw)))) \<and>
         sint (currentRightSpeed (fst (update now (t, hw))))
           \<le> max (sint (currentRightSpeed t)) (sint (targetRightSpeed t))"
proof -
  have ok: "speed_ok (currentRightSpeed t)" using assms(1) by (simp add: tank_inv_def)
  show ?thesis
    unfolding update_elapsed_fields(2) [OF assms(2)]
    using rampChannel_step [OF ok, where step = "rampStep t" and tgt = "targetRightSpeed t"] by blast
qed

lemma run_writes_append: "run_writes (xs @ ys) hw = run_writes ys (run_writes xs hw)"
  by (induction xs arbitrary: hw) simp_all

lemma driveLeft_run: "driveLeft t speed hw = run_writes (driveLeft_writes t speed) hw"
  by (simp add: driveLeft_def driveLeft_writes_def)

lemma driveRight_run: "driveRight t speed hw = run_writes (driveRight_writes t speed) hw"
  by (simp add: driveRight_def driveRight_writes_def)

lemma driveLeft_writes_pins:
  "driveLeft_writes (t\<lparr>lastRampTime := a, currentLeftSpeed := b, currentRightSpeed := c\<rparr>) s =
     driveLeft_writes t s"
  "driveRight_writes (t\<lparr>lastRampTime := a, currentLeftSpeed := b, currentRightSpeed := c\<rparr>) s =
     driveRight_writes t s"
  by (simp_all add: driveLeft_writes_def driveRight_writes_def)

lemma update_run: "snd (update now (t, hw)) = run_writes (update_writes now t) hw"
  by (simp add: update_def update_writes_def Let_def run_writes_append driveLeft_run
      driveRight_run driveLeft_writes_pins)

lemma driveLeft_trace_both_high:
  assumes "leftIn1 t \<noteq> leftIn2 t"
  shows "list_ex (left_both_high t) (hw_trace (driveLeft_writes t speed) hw) =
           (0 < sint speed \<and> pinLevel hw (leftIn2 t))"
  using assms
  by (auto simp add: driveLeft_writes_def left_both_high_def digitalWrite_def analogWrite_def
      word_sless_alt)

lemma driveRight_trace_both_high:
  assumes "rightIn1 t \<noteq> rightIn2 t"
  shows "list_ex (right_both_high t) (hw_trace (driveRight_writes t speed) hw) =
           (0 < sint speed \<and> pinLevel hw (rightIn2 t))"
  using assms
  by (auto simp add: driveRight_writes_def right_both_high_def digitalWrite_def analogWrite_def
      word_sless_alt)

section \<open>Claims about the ramp controller\<close>

text \<open>
  Claim C1. An accepted command sets both targets at once: the magnitudes are the command's
  two speed fields and the signs follow the command type. \<open>Forward\<close> gives \<open>(+l, +r)\<close>,
  \<open>Backward\<close> gives \<open>(-l, -r)\<close>, \<open>Left\<close> gives \<open>(-l, +r)\<close>, \<open>Right\<close> gives \<open>(+l, -r)\<close> and
  \<open>Stop\<close> gives \<open>(0, 0)\<close>, whatever the targets were before; \<open>Left\<close> with speeds
  \<open>(150, 150)\<close> gives \<open>(-150, +150)\<close>.
\<close>

theorem applyCommand_targets:
  "targets (applyCommand Forward l r t) = (uint l, uint r) \<and>
   targets (applyCommand Backward l r t) = (- uint l, - uint r) \<and>
   targets (applyCommand Left l r t) = (- uint l, uint r) \<and>
   targets (applyCommand Right l r t) = (uint l, - uint r) \<and>
   targets (applyCommand Stop l r t) = (0, 0) \<and>
   targets (applyCommand Left 150 150 t) = (- 150, 150)"
  by (simp add: targets_forward_setSpeed targets_backward_setSpeed targets_left_setSpeed
      targets_right_setSpeed)
     (simp add: targets_def stop_def)

text \<open>
  Claim C2. In every state the class can reach (all speeds within \<open>[-255, 255]\<close>), a call of
  \<open>update\<close> that finds the ramp interval elapsed moves each channel's current speed by at
  most \<open>rampStep\<close>, shortens the distance to the target by \<open>rampStep\<close> or to zero, and
  leaves the current speed between its old value and the target, so it never overshoots.
  With \<open>rampStep = 10\<close>, a channel starting at \<open>0\<close> with target \<open>100\<close> stands at
  \<open>min (10 * k) 100\<close> after \<open>k\<close> elapsed ticks: exactly \<open>100\<close> after ten, never above
  \<open>100\<close> before or after.
\<close>

theorem update_ramps_towards_target:
  "(tank_inv t \<and> \<not> now - lastRampTime t < ucast (rampInterval t) \<longrightarrow>
      (\<bar>sint (currentLeftSpeed (fst (update now (t, hw)))) - sint (currentLeftSpeed t)\<bar>
           \<le> uint (rampStep t) \<and>
       \<bar>sint (targetLeftSpeed t) - sint (currentLeftSpeed (fst (update now (t, hw))))\<bar> =
           max 0 (\<bar>sint (targetLeftSpeed t) - sint (currentLeftSpeed t)\<bar> - uint (rampStep t)) \<and>
       min (sint (currentLeftSpeed t)) (sint (targetLeftSpeed t))
           \<le> sint (currentLeftSpeed (fst (update now (t, hw)))) \<and>
       sint (currentLeftSpeed (fst (update now (t, hw))))
           \<le> max (sint (currentLeftSpeed t)) (sint (targetLeftSpeed t))) \<and>
      (\<bar>sint (currentRightSpeed (fst (update now (t, hw)))) - sint (currentRightSpeed t)\<bar>
           \<le> uint (rampStep t) \<and>
       \<bar>sint (targetRightSpeed t) - sint (currentRightSpeed (fst (update now (t, hw))))\<bar> =
           max 0 (\<bar>sint (targetRightSpeed t) - sint (currentRightSpeed t)\<bar> - uint (rampStep t)) \<and>
       min (sint (currentRightSpeed t)) (sint (targetRightSpeed t))
           \<le> sint (currentRightSpeed (fst (update now (t, hw)))) \<and>
       sint (currentRightSpeed (fst (update now (t, hw))))
           \<le> max (sint (currentRightSpeed t)) (sint (targetRightSpeed t)))) \<and>
   (elapsed_ticks nows (lastRampTime t) (rampInterval t) \<and> rampStep t = 10 \<longrightarrow>
      (currentLeftSpeed t = 0 \<and> targetLeftSpeed t = 100 \<longrightarrow>
         sint (currentLeftSpeed (fst (updates nows (t, hw)))) = min (10 * int (length nows)) 100) \<and>
      (currentRightSpeed t = 0 \<and> targetRightSpeed t = 100 \<longrightarrow>
         sint (currentRightSpeed (fst (updates nows (t, hw)))) = min (10 * int (length nows)) 100))"
  using update_step_left [of t now hw] update_step_right [of t now hw]
    updates_elapsed_left [of nows t hw] updates_elapsed_right [of nows t hw]
    ramp_0_to_100 [of "length nows"]
  by simp

theorem update_ramps_towards_target_witness:
  "tank_inv (setSpeed 100 100 (new_Tank 22 21 25 13 15 14)) \<and>
   elapsed_ticks [10, 20, 30, 40, 50, 60, 70, 80, 90, 100] 0 10 \<and>
   sint (currentLeftSpeed (fst (update 10 (setSpeed 100 100 (new_Tank 22 21 25 13 15 14), hw0)))) = 10 \<and>
   sint (currentLeftSpeed (fst (updates [10, 20, 30, 40, 50, 60, 70, 80, 90, 100]
      (setSpeed 100 100 (new_Tank 22 21 25 13 15 14), hw0)))) = 100 \<and>
   sint (currentRightSpeed (fst (updates [10, 20, 30, 40, 50, 60, 70]
      (setSpeed 100 100 (new_Tank 22 21 25 13 15 14), hw0)))) = 70"
proof -
  let ?t = "setSpeed 100 100 (new_Tank 22 21 25 13 15 14)"
  have f: "currentLeftSpeed ?t = 0" "targetLeftSpeed ?t = 100" "currentRightSpeed ?t = 0"
    "targetRightSpeed ?t = 100" "rampStep ?t = 10" "rampInterval ?t = 10" "lastRampTime ?t = 0"
    by (simp_all add: setSpeed_def new_Tank_def Let_def word_sless_alt)
  have i: "tank_inv ?t"
    by (simp add: tank_inv_setSpeed tank_inv_new)
  have e: "elapsed_ticks [10, 20, 30, 40, 50, 60, 70, 80, 90, 100] (lastRampTime ?t) (rampInterval ?t)"
    "elapsed_ticks [10, 20, 30, 40, 50, 60, 70] (lastRampTime ?t) (rampInterval ?t)"
    "\<not> 10 - lastRampTime ?t < ucast (rampInterval ?t)"
    unfolding f by simp_all
  have one: "\<bar>sint (targetLeftSpeed ?t) - sint (currentLeftSpeed (fst (update 10 (?t, hw0))))\<bar> =
           max 0 (\<bar>sint (targetLeftSpeed ?t) - sint (currentLeftSpeed ?t)\<bar> - uint (rampStep ?t))"
    and bd: "sint (currentLeftSpeed (fst (update 10 (?t, hw0))))
           \<le> max (sint (currentLeftSpeed ?t)) (sint (targetLeftSpeed ?t))"
    using update_ramps_towards_target [where t = ?t and now = 10 and hw = hw0 and nows = "[]"] i e(3) by blast+
  have ten: "sint (currentLeftSpeed (fst (updates [10, 20, 30, 40, 50, 60, 70, 80, 90, 100] (?t, hw0)))) =
      min (10 * int (length [10, 20, 30, 40, 50, 60, 70, 80, 90, 100 :: uint32_t])) 100"
    using update_ramps_towards_target [where t = ?t and now = 0 and hw = hw0 and nows = "[10, 20, 30, 40, 50, 60, 70, 80, 90, 100]"] e(1) f
    by blast
  have seven: "sint (currentRightSpeed (fst (updates [10, 20, 30, 40, 50, 60, 70] (?t, hw0)))) =
      min (10 * int (length [10, 20, 30, 40, 50, 60, 70 :: uint32_t])) 100"
    using update_ramps_towards_target [where t = ?t and now = 0 and hw = hw0 and nows = "[10, 20, 30, 40, 50, 60, 70]"] e(2) f
    by blast
  have "sint (currentLeftSpeed (fst (update 10 (?t, hw0)))) = 10"
    using one bd unfolding f by simp
  with i e(1) ten seven show ?thesis
    unfolding f by simp
qed

text \<open>
  Claim C5. \<open>setSpeed\<close> gives each target the new magnitude and keeps the sign the target
  had: a negative target stays negative, any other target becomes the plain magnitude.
  \<open>setSpeed(120, 120)\<close> on targets \<open>(80, 80)\<close> gives \<open>(+120, +120)\<close>.
\<close>

theorem setSpeed_preserves_sign:
  "(sint (targetLeftSpeed t) < 0 \<longrightarrow> sint (targetLeftSpeed (setSpeed l r t)) = - uint l) \<and>
   (0 \<le> sint (targetLeftSpeed t) \<longrightarrow> sint (targetLeftSpeed (setSpeed l r t)) = uint l) \<and>
   (sint (targetRightSpeed t) < 0 \<longrightarrow> sint (targetRightSpeed (setSpeed l r t)) = - uint r) \<and>
   (0 \<le> sint (targetRightSpeed t) \<longrightarrow> sint (targetRightSpeed (setSpeed l r t)) = uint r) \<and>
   \<bar>sint (targetLeftSpeed (setSpeed l r t))\<bar> = uint l \<and>
   \<bar>sint (targetRightSpeed (setSpeed l r t))\<bar> = uint r \<and>
   (targets t = (80, 80) \<longrightarrow> targets (setSpeed 120 120 t) = (120, 120))"
  by (simp add: setSpeed_targetLeft setSpeed_targetRight abs_setSpeed_targetLeft
      abs_setSpeed_targetRight targets_def del: abs_if)

theorem setSpeed_preserves_sign_witness:
  "targets (forward (setSpeed 80 80 (new_Tank 22 21 25 13 15 14))) = (80, 80) \<and>
   targets (setSpeed 120 120 (forward (setSpeed 80 80 (new_Tank 22 21 25 13 15 14)))) =
     (120, 120)"
proof -
  let ?t = "forward (setSpeed 80 80 (new_Tank 22 21 25 13 15 14))"
  have h: "targets ?t = (80, 80)"
    by (simp add: targets_forward_setSpeed)
  have "targets ?t = (80, 80) \<longrightarrow> targets (setSpeed 120 120 ?t) = (120, 120)"
    using setSpeed_preserves_sign [of ?t 120 120] by blast
  with h show ?thesis by simp
qed

text \<open>
  Claim C8, as the code implements it. For a signed speed in \<open>[-255, 255]\<close> and direction
  pins with different pin numbers, \<open>driveLeft\<close> and \<open>driveRight\<close> leave the first direction
  pin high exactly when the speed is positive and the second exactly when it is negative,
  so after a call the two are never both high, and the duty written is the absolute value
  of the speed; at speed zero both pins are low and the duty is zero. During a call both
  pins are high in exactly one situation: after the first write of a call with a positive
  speed made while the second pin was still high, and no longer after the second write.
\<close>

theorem drive_pins_and_duty:
  "(speed_ok speed \<and> leftIn1 t \<noteq> leftIn2 t \<and> rightIn1 t \<noteq> rightIn2 t \<longrightarrow>
      pinLevel (driveLeft t speed hw) (leftIn1 t) = (0 < sint speed) \<and>
      pinLevel (driveLeft t speed hw) (leftIn2 t) = (sint speed < 0) \<and>
      \<not> (pinLevel (driveLeft t speed hw) (leftIn1 t) \<and>
         pinLevel (driveLeft t speed hw) (leftIn2 t)) \<and>
      pwmDuty (driveLeft t speed hw) (leftPwm t) = \<bar>sint speed\<bar> \<and>
      pinLevel (driveRight t speed hw) (rightIn1 t) = (0 < sint speed) \<and>
      pinLevel (driveRight t speed hw) (rightIn2 t) = (sint speed < 0) \<and>
      \<not> (pinLevel (driveRight t speed hw) (rightIn1 t) \<and>
         pinLevel (driveRight t speed hw) (rightIn2 t)) \<and>
      pwmDuty (driveRight t speed hw) (rightPwm t) = \<bar>sint speed\<bar> \<and>
      list_ex (left_both_high t) (hw_trace (driveLeft_writes t speed) hw) =
        (0 < sint speed \<and> pinLevel hw (leftIn2 t)) \<and>
      list_ex (right_both_high t) (hw_trace (driveRight_writes t speed) hw) =
        (0 < sint speed \<and> pinLevel hw (rightIn2 t)) \<and>
      \<not> list_ex (left_both_high t) (tl (hw_trace (driveLeft_writes t speed) hw)) \<and>
      \<not> list_ex (right_both_high t) (tl (hw_trace (driveRight_writes t speed) hw))) \<and>
   driveLeft t speed hw = run_writes (driveLeft_writes t speed) hw \<and>
   driveRight t speed hw = run_writes (driveRight_writes t speed) hw \<and>
   snd (update now (t, hw)) = run_writes (update_writes now t) hw \<and>
   \<not> pinLevel (driveLeft t 0 hw) (leftIn1 t) \<and> \<not> pinLevel (driveLeft t 0 hw) (leftIn2 t) \<and>
   pwmDuty (driveLeft t 0 hw) (leftPwm t) = 0 \<and>
   \<not> pinLevel (driveRight t 0 hw) (rightIn1 t) \<and> \<not> pinLevel (driveRight t 0 hw) (rightIn2 t) \<and>
   pwmDuty (driveRight t 0 hw) (rightPwm t) = 0"
proof -
  have post: "speed_ok speed \<and> leftIn1 t \<noteq> leftIn2 t \<and> rightIn1 t \<noteq> rightIn2 t \<longrightarrow>
      pinLevel (driveLeft t speed hw) (leftIn1 t) = (0 < sint speed) \<and>
      pinLevel (driveLeft t speed hw) (leftIn2 t) = (sint speed < 0) \<and>
      \<not> (pinLevel (driveLeft t speed hw) (leftIn1 t) \<and>
         pinLevel (driveLeft t speed hw) (leftIn2 t)) \<and>
      pwmDuty (driveLeft t speed hw) (leftPwm t) = \<bar>sint speed\<bar> \<and>
      pinLevel (driveRight t speed hw) (rightIn1 t) = (0 < sint speed) \<and>
      pinLevel (driveRight t speed hw) (rightIn2 t) = (sint speed < 0) \<and>
      \<not> (pinLevel (driveRight t speed hw) (rightIn1 t) \<and>
         pinLevel (driveRight t speed hw) (rightIn2 t)) \<and>
      pwmDuty (driveRight t speed hw) (rightPwm t) = \<bar>sint speed\<bar>"
    by (auto simp add: driveLeft_def driveRight_def digitalWrite_def analogWrite_def sless_i16)
  have tr: "leftIn1 t \<noteq> leftIn2 t \<longrightarrow>
      list_ex (left_both_high t) (hw_trace (driveLeft_writes t speed) hw) =
        (0 < sint speed \<and> pinLevel hw (leftIn2 t))"
    "rightIn1 t \<noteq> rightIn2 t \<longrightarrow>
      list_ex (right_both_high t) (hw_trace (driveRight_writes t speed) hw) =
        (0 < sint speed \<and> pinLevel hw (rightIn2 t))"
    using driveLeft_trace_both_high [of t speed hw] driveRight_trace_both_high [of t speed hw]
    by blast+
  have later: "leftIn1 t \<noteq> leftIn2 t \<longrightarrow>
      \<not> list_ex (left_both_high t) (tl (hw_trace (driveLeft_writes t speed) hw))"
    "rightIn1 t \<noteq> rightIn2 t \<longrightarrow>
      \<not> list_ex (right_both_high t) (tl (hw_trace (driveRight_writes t speed) hw))"
    by (auto simp add: driveLeft_writes_def driveRight_writes_def left_both_high_def
        right_both_high_def digitalWrite_def analogWrite_def)
  have zero: "\<not> pinLevel (driveLeft t 0 hw) (leftIn1 t)" "\<not> pinLevel (driveLeft t 0 hw) (leftIn2 t)"
    "pwmDuty (driveLeft t 0 hw) (leftPwm t) = 0"
    "\<not> pinLevel (driveRight t 0 hw) (rightIn1 t)" "\<not> pinLevel (driveRight t 0 hw) (rightIn2 t)"
    "pwmDuty (driveRight t 0 hw) (rightPwm t) = 0"
    by (auto simp add: driveLeft_def driveRight_def digitalWrite_def analogWrite_def)
  from post tr later zero driveLeft_run [of t speed hw] driveRight_run [of t speed hw]
    update_run [of now t hw]
  show ?thesis by blast
qed

theorem drive_pins_and_duty_witness:
  "speed_ok 5 \<and>
   leftIn1 (new_Tank 22 21 25 13 15 14) \<noteq> leftIn2 (new_Tank 22 21 25 13 15 14) \<and>
   rightIn1 (new_Tank 22 21 25 13 15 14) \<noteq> rightIn2 (new_Tank 22 21 25 13 15 14) \<and>
   pinLevel (driveLeft (new_Tank 22 21 25 13 15 14) (- 5) hw0) 21 \<and>
   pinLevel (driveLeft (new_Tank 22 21 25 13 15 14) 5
      (driveLeft (new_Tank 22 21 25 13 15 14) (- 5) hw0)) 22 \<and>
   \<not> pinLevel (driveLeft (new_Tank 22 21 25 13 15 14) 5
      (driveLeft (new_Tank 22 21 25 13 15 14) (- 5) hw0)) 21 \<and>
   pwmDuty (driveLeft (new_Tank 22 21 25 13 15 14) 5
      (driveLeft (new_Tank 22 21 25 13 15 14) (- 5) hw0)) 25 = 5 \<and>
   list_ex (left_both_high (new_Tank 22 21 25 13 15 14))
     (hw_trace (driveLeft_writes (new_Tank 22 21 25 13 15 14) 5)
        (driveLeft (new_Tank 22 21 25 13 15 14) (- 5) hw0)) \<and>
   \<not> list_ex (right_both_high (new_Tank 22 21 25 13 15 14))
     (hw_trace (driveRight_writes (new_Tank 22 21 25 13 15 14) 5)
        (driveLeft (new_Tank 22 21 25 13 15 14) (- 5) hw0))"
proof -
  let ?t = "new_Tank 22 21 25 13 15 14"
  let ?hw = "driveLeft ?t (- 5) hw0"
  have h: "speed_ok 5" "leftIn1 ?t \<noteq> leftIn2 ?t" "rightIn1 ?t \<noteq> rightIn2 ?t"
    by (simp_all add: speed_ok_def new_Tank_def)
  have p: "leftIn1 ?t = 22" "leftIn2 ?t = 21" "leftPwm ?t = 25"
    "rightIn1 ?t = 13" "rightIn2 ?t = 15" "rightPwm ?t = 14"
    by (simp_all add: new_Tank_def)
  have b: "pinLevel ?hw 21" "\<not> pinLevel ?hw 15"
    by (simp_all add: driveLeft_def digitalWrite_def analogWrite_def word_sless_alt
        new_Tank_def hw0_def)
  have s: "sint (5 :: int16_t) = 5" by simp
  have c: "pinLevel (driveLeft ?t 5 ?hw) (leftIn1 ?t) = (0 < sint (5 :: int16_t))"
    "pinLevel (driveLeft ?t 5 ?hw) (leftIn2 ?t) = (sint (5 :: int16_t) < 0)"
    "pwmDuty (driveLeft ?t 5 ?hw) (leftPwm ?t) = \<bar>sint (5 :: int16_t)\<bar>"
    "list_ex (left_both_high ?t) (hw_trace (driveLeft_writes ?t 5) ?hw) =
        (0 < sint (5 :: int16_t) \<and> pinLevel ?hw (leftIn2 ?t))"
    "list_ex (right_both_high ?t) (hw_trace (driveRight_writes ?t 5) ?hw) =
        (0 < sint (5 :: int16_t) \<and> pinLevel ?hw (rightIn2 ?t))"
    using drive_pins_and_duty [of 5 ?t ?hw 0] h by blast+
  have 1: "pinLevel (driveLeft ?t 5 ?hw) 22" "\<not> pinLevel (driveLeft ?t 5 ?hw) 21"
    "pwmDuty (driveLeft ?t 5 ?hw) 25 = 5"
    using c(1,2,3) unfolding p s by simp_all
  have 2: "list_ex (left_both_high ?t) (hw_trace (driveLeft_writes ?t 5) ?hw)"
    using c(4) b(1) unfolding p s by simp
  have 3: "\<not> list_ex (right_both_high ?t) (hw_trace (driveRight_writes ?t 5) ?hw)"
    using c(5) b(2) unfolding p s by simp
  from h b(1) 1 2 3 show ?thesis by (intro conjI)
qed

text \<open>
  Claim C8 as stated (never both direction pins high at the same time) fails when the
  ramp crosses zero upwards. A new tank is sent backward at speed 5 and updated: the left
  speed is \<open>-5\<close>, pin 22 low, pin 21 high. It is then sent forward and updated again: the
  left speed steps to \<open>+5\<close>, and the first write of that update sets pin 22 high while
  pin 21 is still high; the second write sets pin 21 low.
\<close>

theorem drive_both_high_counterexample:
  "sint (currentLeftSpeed (fst (update 10 (backward (setSpeed 5 5 (new_Tank 22 21 25 13 15 14)), hw0)))) = - 5 \<and>
   sint (currentLeftSpeed (fst (update 20
      (forward (fst (update 10 (backward (setSpeed 5 5 (new_Tank 22 21 25 13 15 14)), hw0))),
       snd (update 10 (backward (setSpeed 5 5 (new_Tank 22 21 25 13 15 14)), hw0)))))) = 5 \<and>
   map (\<lambda>h. (pinLevel h 22, pinLevel h 21))
     (hw_trace
        (update_writes 20
           (forward (fst (update 10 (backward (setSpeed 5 5 (new_Tank 22 21 25 13 15 14)), hw0)))))
        (snd (update 10 (backward (setSpeed 5 5 (new_Tank 22 21 25 13 15 14)), hw0)))) =
     [(True, True), (True, False), (True, False), (True, False), (True, False), (True, False)] \<and>
   list_ex (left_both_high (new_Tank 22 21 25 13 15 14))
     (hw_trace (driveLeft_writes (new_Tank 22 21 25 13 15 14) 5)
        (driveLeft (new_Tank 22 21 25 13 15 14) (- 5) hw0))"
  by code_simp

text \<open>
  Claim C10. \<open>setSpeed\<close>, \<open>forward\<close>, \<open>backward\<close>, \<open>left\<close>, \<open>right\<close> and \<open>stop\<close> leave
  \<open>currentLeftSpeed\<close>, \<open>currentRightSpeed\<close>, \<open>rampStep\<close>, \<open>rampInterval\<close> and
  \<open>lastRampTime\<close> (and the pin numbers) as they were: only the targets change, and the
  current speeds move only in \<open>update\<close>.
\<close>

theorem command_methods_keep_ramp_state:
  "ramp_side_kept t (setSpeed l r t) \<and> ramp_side_kept t (forward t) \<and>
   ramp_side_kept t (backward t) \<and> ramp_side_kept t (left t) \<and>
   ramp_side_kept t (right t) \<and> ramp_side_kept t (stop t)"
  by (simp add: ramp_side_kept_def setSpeed_def Let_def forward_def backward_def left_def
      right_def stop_def)

section \<open>Properties of the gateway\<close>

lemma sendLoRaFrame_keeps:
  "currentSpeed (snd (sendLoRaFrame env c l r g)) = currentSpeed g"
  "currentState (snd (sendLoRaFrame env c l r g)) = currentState g"
  "lastCommandTime (snd (sendLoRaFrame env c l r g)) = lastCommandTime g"
  by (simp_all add: sendLoRaFrame_def buildFrame_def Let_def split: option.split)

lemma sendLoRaFrame_sequenceCounter:
  "sequenceCounter (snd (sendLoRaFrame env c l r g)) = sequenceCounter g + 1"
  by (simp add: sendLoRaFrame_def buildFrame_def Let_def split: option.split)

lemma sendLoRaFrame_loraSent:
  "loraSent (snd (sendLoRaFrame env c l r g)) =
     (case encryptFrame env (initFrame c l r (sequenceCounter g)) of
        None \<Rightarrow> loraSent g
      | Some e \<Rightarrow> loraSent g @ [e])"
  by (simp add: sendLoRaFrame_def buildFrame_def Let_def split: option.split)

lemma of_char_toupper:
  "of_char (toupper c) = (if 97 \<le> (of_char c :: nat) \<and> (of_char c :: nat) \<le> 122
     then of_char c - 32 else (of_char c :: nat))"
  by (auto simp add: toupper_def Let_def)

lemma toupper_eq_iff:
  assumes "(of_char k :: nat) < 65 \<or> 90 < (of_char k :: nat)"
    and "(of_char k :: nat) < 97 \<or> 122 < (of_char k :: nat)"
  shows "toupper c = k \<longleftrightarrow> c = k"
proof
  assume "toupper c = k"
  then have e: "(of_char (toupper c) :: nat) = of_char k" by simp
  have "(of_char c :: nat) = of_char k"
  proof (cases "97 \<le> (of_char c :: nat) \<and> (of_char c :: nat) \<le> 122")
    case True
    then have "(of_char k :: nat) = of_char c - 32"
      using e by (simp add: of_char_toupper)
    with True assms(1) show ?thesis by arith
  next
    case False
    then show ?thesis using e by (auto simp add: of_char_toupper)
  qed
  then show "c = k" by simp
next
  assume "c = k"
  then show "toupper c = k" using assms by (auto simp add: toupper_def Let_def)
qed

lemma toupper_keys:
  "toupper c = CHR ''+'' \<longleftrightarrow> c = CHR ''+''"
  "toupper c = CHR ''='' \<longleftrightarrow> c = CHR ''=''"
  "toupper c = CHR ''-'' \<longleftrightarrow> c = CHR ''-''"
  "toupper c = CHR ''_'' \<longleftrightarrow> c = CHR ''_''"
  "toupper c = CHR ''1'' \<longleftrightarrow> c = CHR ''1''"
  "toupper c = CHR ''3'' \<longleftrightarrow> c = CHR ''3''"
  "toupper c = CHR ''9'' \<longleftrightarrow> c = CHR ''9''"
  "toupper c = CHR ''8'' \<longleftrightarrow> c = CHR ''8''"
  "toupper c = CHR ''2'' \<longleftrightarrow> c = CHR ''2''"
  "toupper c = CHR ''4'' \<longleftrightarrow> c = CHR ''4''"
  "toupper c = CHR ''6'' \<longleftrightarrow> c = CHR ''6''"
  "toupper c = CHR ''5'' \<longleftrightarrow> c = CHR ''5''"
  "toupper c = CHR '' '' \<longleftrightarrow> c = CHR '' ''"
  by (rule toupper_eq_iff; simp)+

lemma speed_inc_bounds: "0 \<le> speed_inc s \<and> speed_inc s \<le> 255"
  using uint_u8_bounds [of s] unfolding speed_inc_def by linarith

lemma speed_dec_bounds: "0 \<le> speed_dec s \<and> speed_dec s \<le> 255"
  using uint_u8_bounds [of s] unfolding speed_dec_def by linarith

lemma uint_word_of_int_u8: "0 \<le> v \<Longrightarrow> v \<le> 255 \<Longrightarrow> uint (word_of_int v :: uint8_t) = v"
  by (simp add: uint_word_of_int take_bit_int_eq_self)

lemma handleBluetoothCommand_currentSpeed:
  "currentSpeed (handleBluetoothCommand env c g) = currentSpeed (snd (switch_cmd (toupper c) g))"
  by (simp add: handleBluetoothCommand_def Let_def sendLoRaFrame_keeps split: option.split)

lemma switch_cmd_currentSpeed:
  "currentSpeed (snd (switch_cmd cmd g)) =
     (if cmd = CHR ''+'' \<or> cmd = CHR ''='' then word_of_int (speed_inc (currentSpeed g))
      else if cmd = CHR ''-'' \<or> cmd = CHR ''_'' then word_of_int (speed_dec (currentSpeed g))
      else if cmd = CHR ''1'' then 100
      else if cmd = CHR ''3'' then 200
      else if cmd = CHR ''9'' then 255
      else currentSpeed g)"
  by (simp add: switch_cmd_def)

lemma uint_speed_inc: "uint (word_of_int (speed_inc s) :: uint8_t) = min 255 (uint s + 25)"
  using speed_inc_bounds [of s] uint_word_of_int_u8 [of "speed_inc s"]
  by (simp add: speed_inc_def)

lemma uint_speed_dec: "uint (word_of_int (speed_dec s) :: uint8_t) = max 0 (uint s - 25)"
  using speed_dec_bounds [of s] uint_word_of_int_u8 [of "speed_dec s"]
  by (simp add: speed_dec_def)

lemma switch_cmd_speed:
  "uint (currentSpeed (snd (switch_cmd (toupper c) g))) =
     spec_speed_after c (uint (currentSpeed g))"
  unfolding switch_cmd_currentSpeed toupper_keys spec_speed_after_def
  by (simp add: uint_speed_inc uint_speed_dec)

lemma handleBluetoothCommand_speed:
  "uint (currentSpeed (handleBluetoothCommand env c g)) =
     spec_speed_after c (uint (currentSpeed g))"
  by (simp only: handleBluetoothCommand_currentSpeed switch_cmd_speed)

lemma handleAll_speed:
  "uint (currentSpeed (handleAll env cs g)) = spec_speed_after_all cs (uint (currentSpeed g))"
  by (induction cs arbitrary: g) (simp_all add: handleBluetoothCommand_speed)

lemma spec_speed_after_range: "0 \<le> v \<Longrightarrow> v \<le> 255 \<Longrightarrow>
   0 \<le> spec_speed_after c v \<and> spec_speed_after c v \<le> 255"
  by (simp add: spec_speed_after_def)

lemma switch_cmd_sequenceCounter:
  "sequenceCounter (snd (switch_cmd cmd g)) = sequenceCounter g"
  by (simp add: switch_cmd_def)

lemma sendLoRaFrame_handed_over:
  "loraSent (snd (sendLoRaFrame env c l r g)) =
     loraSent g @ handed_over env (initFrame c l r (sequenceCounter g))"
  by (simp add: sendLoRaFrame_loraSent handed_over_def split: option.split)

lemma sendAll_loraSent:
  "loraSent (sendAll env cmds g) =
     loraSent g @ concat (map (handed_over env) (spec_frames (sequenceCounter g) cmds))"
proof (induction cmds arbitrary: g)
  case Nil
  then show ?case by simp
next
  case (Cons x cmds)
  obtain c l r where x: "x = (c, l, r)" by (cases x)
  show ?case
    unfolding x
    by (simp add: Cons.IH sendLoRaFrame_handed_over sendLoRaFrame_sequenceCounter)
qed

lemma sendAll_sequenceCounter:
  "sequenceCounter (sendAll env cmds g) = sequenceCounter g + of_nat (length cmds)"
proof (induction cmds arbitrary: g)
  case Nil
  then show ?case by simp
next
  case (Cons x cmds)
  obtain c l r where x: "x = (c, l, r)" by (cases x)
  show ?case
    unfolding x by (simp add: Cons.IH sendLoRaFrame_sequenceCounter)
qed

lemma spec_frames_sequence:
  "map sequence (spec_frames s cmds) = map (\<lambda>i. s + of_nat i) [0..<length cmds]"
proof (induction cmds arbitrary: s)
  case Nil
  then show ?case by simp
next
  case (Cons x cmds)
  obtain c l r where x: "x = (c, l, r)" by (cases x)
  have "map (\<lambda>i. s + of_nat i) [0..<Suc (length cmds)] =
      s # map (\<lambda>i. s + 1 + of_nat i) [0..<length cmds]"
    by (simp add: upt_rec [of 0] map_Suc_upt [symmetric] add.assoc del: upt_Suc)
  then show ?case
    unfolding x by (simp add: Cons.IH initFrame_def del: upt_Suc)
qed

section \<open>Claims about the gateway\<close>

text \<open>
  Claim C3, as the sketch implements it. The safety timer lives in the gateway's \<open>loop\<close>.
  A pass that reads no byte and finds more than \<open>COMMAND_TIMEOUT\<close> (2000) milliseconds
  since \<open>lastCommandTime\<close>, counted modulo \<open>2^32\<close>, while \<open>currentState\<close> is not \<open>"STOP"\<close>,
  builds a \<open>Stop\<close> frame with both speeds zero, hands its encryption to the radio when the
  encryption succeeds, and sets \<open>currentState\<close> to \<open>"STOP (TIMEOUT)"\<close>; any other pass without
  a byte changes nothing. Every byte read resets \<open>lastCommandTime\<close>, whether or not it is a
  valid command. On the vehicle, \<open>stop\<close> sets both targets to zero whatever they were.
\<close>

theorem loop_timeout_sends_stop:
  "(COMMAND_TIMEOUT < t_chk - lastCommandTime g \<and> currentState g \<noteq> ''STOP'' \<longrightarrow>
      currentState (loop env None t_cmd t_chk g) = ''STOP (TIMEOUT)'' \<and>
      sequenceCounter (loop env None t_cmd t_chk g) = sequenceCounter g + 1 \<and>
      loraSent (loop env None t_cmd t_chk g) =
        (case encryptFrame env (initFrame Stop 0 0 (sequenceCounter g)) of
           None \<Rightarrow> loraSent g
         | Some e \<Rightarrow> loraSent g @ [e])) \<and>
   (\<not> (COMMAND_TIMEOUT < t_chk - lastCommandTime g \<and> currentState g \<noteq> ''STOP'') \<longrightarrow>
      loop env None t_cmd t_chk g = g) \<and>
   lastCommandTime (loop env (Some ch) t_cmd t_chk g) = t_cmd \<and>
   targets (stop t) = (0, 0)"
  by (simp add: loop_def Let_def sendLoRaFrame_keeps sendLoRaFrame_sequenceCounter
      sendLoRaFrame_loraSent targets_def stop_def)

theorem loop_timeout_sends_stop_witness:
  "COMMAND_TIMEOUT < 3000 - lastCommandTime (loops test_env [(Some CHR ''W'', 0, 0)] initial_gateway) \<and>
   currentState (loops test_env [(Some CHR ''W'', 0, 0)] initial_gateway) \<noteq> ''STOP'' \<and>
   currentState (loop test_env None 0 3000 (loops test_env [(Some CHR ''W'', 0, 0)] initial_gateway)) =
     ''STOP (TIMEOUT)'' \<and>
   loraSent (loop test_env None 0 3000 (loops test_env [(Some CHR ''W'', 0, 0)] initial_gateway)) =
     [[1, 200, 200, 0], [0, 0, 0, 1]] \<and>
   \<not> COMMAND_TIMEOUT < 1500 - lastCommandTime (loops test_env [(Some CHR ''W'', 0, 0)] initial_gateway) \<and>
   loop test_env None 0 1500 (loops test_env [(Some CHR ''W'', 0, 0)] initial_gateway) =
     loops test_env [(Some CHR ''W'', 0, 0)] initial_gateway"
proof -
  let ?g = "loops test_env [(Some CHR ''W'', 0, 0)] initial_gateway"
  have g: "?g = \<lparr>currentSpeed = 200, currentState = ''FORWARD'', lastCommandTime = 0,
      sequenceCounter = 1, loraSent = [[1, 200, 200, 0]]\<rparr>"
    by code_simp
  have h: "COMMAND_TIMEOUT < 3000 - lastCommandTime ?g" "currentState ?g \<noteq> ''STOP''"
    "\<not> COMMAND_TIMEOUT < 1500 - lastCommandTime ?g"
    unfolding g by (simp_all add: COMMAND_TIMEOUT_def)
  have e: "encryptFrame test_env (initFrame Stop 0 0 (sequenceCounter ?g)) = Some [0, 0, 0, 1]"
    unfolding g by (simp add: test_env_def initFrame_def)
  from loop_timeout_sends_stop [of 3000 ?g test_env 0] h(1,2)
  have 1: "currentState (loop test_env None 0 3000 ?g) = ''STOP (TIMEOUT)''"
    "loraSent (loop test_env None 0 3000 ?g) =
        (case encryptFrame test_env (initFrame Stop 0 0 (sequenceCounter ?g)) of
           None \<Rightarrow> loraSent ?g
         | Some e \<Rightarrow> loraSent ?g @ [e])"
    by blast+
  have 2: "loraSent (loop test_env None 0 3000 ?g) = [[1, 200, 200, 0], [0, 0, 0, 1]]"
    unfolding 1(2) e unfolding g by simp
  from loop_timeout_sends_stop [of 1500 ?g test_env 0] h(3)
  have 3: "loop test_env None 0 1500 ?g = ?g"
    by blast
  from h 1(1) 2 3 show ?thesis by (intro conjI)
qed

text \<open>
  Claim C3 as stated (no valid command for longer than the timeout forces a stop,
  regardless of prior state) fails on two runs from the initial state. In the first,
  \<open>W\<close> at 0 ms is followed by the unknown byte \<open>Z\<close> at 1500 ms; at 3000 ms no valid command
  has been accepted for 3000 ms, yet the state is still \<open>FORWARD\<close> and the only frame ever
  sent is the \<open>Forward\<close> one. In the second, \<open>W\<close> at 0 ms is sent, the transmission of the
  \<open>Stop\<close> for \<open>X\<close> at 100 ms fails, and at 5000 ms nothing further is sent because the
  state is \<open>"STOP"\<close>.
\<close>

theorem safety_timeout_counterexample:
  "currentState (loops test_env
      [(Some CHR ''W'', 0, 0), (Some CHR ''Z'', 1500, 1500), (None, 0, 3000)] initial_gateway) =
     ''FORWARD'' \<and>
   loraSent (loops test_env
      [(Some CHR ''W'', 0, 0), (Some CHR ''Z'', 1500, 1500), (None, 0, 3000)] initial_gateway) =
     [[1, 200, 200, 0]] \<and>
   \<not> fst (sendLoRaFrame lossy_env Stop 200 200
      (loops lossy_env [(Some CHR ''W'', 0, 0)] initial_gateway)) \<and>
   currentState (loops lossy_env
      [(Some CHR ''W'', 0, 0), (Some CHR ''X'', 100, 100), (None, 0, 5000)] initial_gateway) =
     ''STOP'' \<and>
   loraSent (loops lossy_env
      [(Some CHR ''W'', 0, 0), (Some CHR ''X'', 100, 100), (None, 0, 5000)] initial_gateway) =
     [[1, 200, 200, 0], [0, 200, 200, 1]]"
  by code_simp

text \<open>
  Claim C6. \<open>sendLoRaFrame\<close> encrypts the frame that carries the current value of
  \<open>sequenceCounter\<close>, hands the result to the radio, and leaves the counter one higher,
  modulo 256, whether or not the frame goes out. Two calls in a row therefore hand over
  the frames numbered \<open>n\<close> and \<open>n + 1\<close> modulo 256, and any run of calls hands over the
  commands numbered upwards from the counter's value. On a radio that shows the frame's
  fields, the first two frames after startup carry 0 and 1, and frames sent from a
  counter of 255 carry 255 and 0. The \<open>switch\<close> of \<open>handleBluetoothCommand\<close> does not touch
  the counter.
\<close>

theorem sequence_numbers_count_up:
  "loraSent (snd (sendLoRaFrame env c l r g)) =
     loraSent g @ handed_over env (initFrame c l r (sequenceCounter g)) \<and>
   sequenceCounter (snd (sendLoRaFrame env c l r g)) = sequenceCounter g + 1 \<and>
   unat (sequenceCounter g + 1) = (unat (sequenceCounter g) + 1) mod 256 \<and>
   loraSent (snd (sendLoRaFrame env c' l' r' (snd (sendLoRaFrame env c l r g)))) =
     loraSent g @ handed_over env (initFrame c l r (sequenceCounter g)) @
       handed_over env (initFrame c' l' r' (sequenceCounter g + 1)) \<and>
   loraSent (sendAll env cmds g) =
     loraSent g @ concat (map (handed_over env) (spec_frames (sequenceCounter g) cmds)) \<and>
   map sequence (spec_frames s cmds) = map (\<lambda>i. s + of_nat i) [0..<length cmds] \<and>
   sequenceCounter (sendAll env cmds g) = sequenceCounter g + of_nat (length cmds) \<and>
   sequence (initFrame c l r s) = s \<and>
   loraSent (snd (sendLoRaFrame test_env c' l' r' (snd (sendLoRaFrame test_env c l r initial_gateway)))) =
     [[command_code c, l, r, 0], [command_code c', l', r', 1]] \<and>
   loraSent (snd (sendLoRaFrame test_env c' l' r'
       (snd (sendLoRaFrame test_env c l r (initial_gateway\<lparr>sequenceCounter := 255\<rparr>))))) =
     [[command_code c, l, r, 255], [command_code c', l', r', 0]] \<and>
   sequence (fst (buildFrame c l r g)) = sequenceCounter g \<and>
   sequence (fst (buildFrame c' l' r' (snd (sendLoRaFrame env c l r g)))) =
     sequence (fst (buildFrame c l r g)) + 1 \<and>
   unat (sequence (fst (buildFrame c' l' r' (snd (sendLoRaFrame env c l r g))))) =
     (unat (sequence (fst (buildFrame c l r g))) + 1) mod 256 \<and>
   sequenceCounter (snd (switch_cmd ch g)) = sequenceCounter g \<and>
   sequence (fst (buildFrame c l r initial_gateway)) = 0"
proof -
  have t: "handed_over test_env (initFrame a b d e) = [[command_code a, b, d, e]]" for a b d e
    by (simp add: handed_over_def test_env_def initFrame_def)
  have i: "sequenceCounter initial_gateway = 0" "loraSent initial_gateway = []"
    by (simp_all add: initial_gateway_def)
  have two: "loraSent (snd (sendLoRaFrame e2 c' l' r' (snd (sendLoRaFrame e2 c l r g2)))) =
     loraSent g2 @ handed_over e2 (initFrame c l r (sequenceCounter g2)) @
       handed_over e2 (initFrame c' l' r' (sequenceCounter g2 + 1))" for e2 g2
    by (simp add: sendLoRaFrame_handed_over sendLoRaFrame_sequenceCounter)
  have w0: "loraSent (snd (sendLoRaFrame test_env c' l' r'
       (snd (sendLoRaFrame test_env c l r initial_gateway)))) =
     [[command_code c, l, r, 0], [command_code c', l', r', 1]]"
    unfolding two by (simp add: t i)
  have w255: "loraSent (snd (sendLoRaFrame test_env c' l' r'
       (snd (sendLoRaFrame test_env c l r (initial_gateway\<lparr>sequenceCounter := 255\<rparr>))))) =
     [[command_code c, l, r, 255], [command_code c', l', r', 0]]"
    unfolding two by (simp add: t i)
  have old: "sequence (fst (buildFrame c l r g)) = sequenceCounter g"
    "sequence (fst (buildFrame c' l' r' (snd (sendLoRaFrame env c l r g)))) =
       sequence (fst (buildFrame c l r g)) + 1"
    "unat (sequence (fst (buildFrame c' l' r' (snd (sendLoRaFrame env c l r g))))) =
       (unat (sequence (fst (buildFrame c l r g))) + 1) mod 256"
    "sequence (fst (buildFrame c l r initial_gateway)) = 0"
    "unat (sequenceCounter g + 1) = (unat (sequenceCounter g) + 1) mod 256"
    "sequence (initFrame c l r s) = s"
    by (simp_all add: buildFrame_def initFrame_def sendLoRaFrame_sequenceCounter
        initial_gateway_def unat_word_ariths)
  from sendLoRaFrame_handed_over [of env c l r g] sendLoRaFrame_sequenceCounter [of env c l r g]
    two [of env g] sendAll_loraSent [of env cmds g] spec_frames_sequence [of s cmds]
    sendAll_sequenceCounter [of env cmds g] w0 w255 old switch_cmd_sequenceCounter [of ch g]
  show ?thesis by (intro conjI)
qed

text \<open>
  Claim C7. \<open>sendLoRaFrame\<close> returns true exactly when the encryption succeeds and
  \<open>LoRa.endPacket()\<close> returns 1. When the encryption fails it returns false and nothing is
  handed to the radio; when it succeeds, the whole encrypted buffer is handed over.
\<close>

theorem sendLoRaFrame_result:
  "fst (sendLoRaFrame env c l r g) =
     (case encryptFrame env (fst (buildFrame c l r g)) of
        None \<Rightarrow> False
      | Some e \<Rightarrow> endPacket env (loraSent g @ [e]) = 1) \<and>
   (encryptFrame env (fst (buildFrame c l r g)) = None \<longrightarrow>
      \<not> fst (sendLoRaFrame env c l r g) \<and>
      loraSent (snd (sendLoRaFrame env c l r g)) = loraSent g) \<and>
   (\<forall>e. encryptFrame env (fst (buildFrame c l r g)) = Some e \<longrightarrow>
      loraSent (snd (sendLoRaFrame env c l r g)) = loraSent g @ [e] \<and>
      fst (sendLoRaFrame env c l r g) = (endPacket env (loraSent g @ [e]) = 1))"
  by (simp add: sendLoRaFrame_def buildFrame_def Let_def split: option.split)

theorem sendLoRaFrame_result_witness:
  "encryptFrame broken_env (fst (buildFrame Forward 200 200 initial_gateway)) = None \<and>
   \<not> fst (sendLoRaFrame broken_env Forward 200 200 initial_gateway) \<and>
   loraSent (snd (sendLoRaFrame broken_env Forward 200 200 initial_gateway)) = [] \<and>
   encryptFrame test_env (fst (buildFrame Forward 200 200 initial_gateway)) = Some [1, 200, 200, 0] \<and>
   fst (sendLoRaFrame test_env Forward 200 200 initial_gateway) \<and>
   loraSent (snd (sendLoRaFrame test_env Forward 200 200 initial_gateway)) = [[1, 200, 200, 0]] \<and>
   encryptFrame silent_env (fst (buildFrame Forward 200 200 initial_gateway)) = Some [1, 200, 200, 0] \<and>
   \<not> fst (sendLoRaFrame silent_env Forward 200 200 initial_gateway)"
proof -
  have n: "encryptFrame broken_env (fst (buildFrame Forward 200 200 initial_gateway)) = None"
    by (simp add: broken_env_def)
  have t: "encryptFrame test_env (fst (buildFrame Forward 200 200 initial_gateway)) =
      Some [1, 200, 200, 0]"
    by (simp add: test_env_def buildFrame_def initFrame_def initial_gateway_def)
  have q: "encryptFrame silent_env (fst (buildFrame Forward 200 200 initial_gateway)) =
      Some [1, 200, 200, 0]"
    by (simp add: silent_env_def buildFrame_def initFrame_def initial_gateway_def)
  have l: "loraSent initial_gateway = []" by (simp add: initial_gateway_def)
  have e: "endPacket test_env x = 1" "endPacket silent_env x = 0" for x
    by (simp_all add: test_env_def silent_env_def)
  from sendLoRaFrame_result [of broken_env Forward 200 200 initial_gateway] n
  have 1: "\<not> fst (sendLoRaFrame broken_env Forward 200 200 initial_gateway)"
    "loraSent (snd (sendLoRaFrame broken_env Forward 200 200 initial_gateway)) = []"
    unfolding l by blast+
  from sendLoRaFrame_result [of test_env Forward 200 200 initial_gateway] t
  have 2: "fst (sendLoRaFrame test_env Forward 200 200 initial_gateway)"
    "loraSent (snd (sendLoRaFrame test_env Forward 200 200 initial_gateway)) = [[1, 200, 200, 0]]"
    unfolding l by (simp_all add: e)
  from sendLoRaFrame_result [of silent_env Forward 200 200 initial_gateway] q
  have 3: "\<not> fst (sendLoRaFrame silent_env Forward 200 200 initial_gateway)"
    unfolding l by (simp add: e)
  from n t q 1 2 3 show ?thesis by (intro conjI)
qed

text \<open>
  Claim C9. The stored speed after \<open>handleBluetoothCommand\<close> is the saturating integer
  result: \<open>+\<close> and \<open>=\<close> give \<open>min 255 (speed + 25)\<close>, \<open>-\<close> and \<open>_\<close> give
  \<open>max 0 (speed - 25)\<close>, the presets give 100, 200 and 255, every other byte leaves it
  unchanged. The integers assigned to the \<open>uint8_t\<close> always lie in \<open>0..255\<close>, so the
  8-bit value never wraps, after one byte or after any sequence of bytes.
\<close>

theorem gateway_speed_saturates:
  "uint (currentSpeed (handleBluetoothCommand env c g)) =
     spec_speed_after c (uint (currentSpeed g)) \<and>
   uint (currentSpeed (handleAll env cs g)) = spec_speed_after_all cs (uint (currentSpeed g)) \<and>
   0 \<le> uint (currentSpeed (handleAll env cs g)) \<and>
   uint (currentSpeed (handleAll env cs g)) \<le> 255 \<and>
   0 \<le> speed_inc (currentSpeed g) \<and> speed_inc (currentSpeed g) \<le> 255 \<and>
   0 \<le> speed_dec (currentSpeed g) \<and> speed_dec (currentSpeed g) \<le> 255 \<and>
   (c = CHR ''+'' \<or> c = CHR ''='' \<longrightarrow>
      uint (currentSpeed (handleBluetoothCommand env c g)) = min 255 (uint (currentSpeed g) + 25)) \<and>
   (c = CHR ''-'' \<or> c = CHR ''_'' \<longrightarrow>
      uint (currentSpeed (handleBluetoothCommand env c g)) = max 0 (uint (currentSpeed g) - 25)) \<and>
   (c = CHR ''1'' \<longrightarrow> currentSpeed (handleBluetoothCommand env c g) = 100) \<and>
   (c = CHR ''3'' \<longrightarrow> currentSpeed (handleBluetoothCommand env c g) = 200) \<and>
   (c = CHR ''9'' \<longrightarrow> currentSpeed (handleBluetoothCommand env c g) = 255) \<and>
   (c \<notin> {CHR ''+'', CHR ''='', CHR ''-'', CHR ''_'', CHR ''1'', CHR ''3'', CHR ''9''} \<longrightarrow>
      currentSpeed (handleBluetoothCommand env c g) = currentSpeed g)"
proof -
  have k: "currentSpeed (handleBluetoothCommand env c g) =
     (if c = CHR ''+'' \<or> c = CHR ''='' then word_of_int (speed_inc (currentSpeed g))
      else if c = CHR ''-'' \<or> c = CHR ''_'' then word_of_int (speed_dec (currentSpeed g))
      else if c = CHR ''1'' then 100
      else if c = CHR ''3'' then 200
      else if c = CHR ''9'' then 255
      else currentSpeed g)"
    unfolding handleBluetoothCommand_currentSpeed switch_cmd_currentSpeed toupper_keys ..
  have c1: "uint (currentSpeed (handleBluetoothCommand env c g)) =
     spec_speed_after c (uint (currentSpeed g))"
    by (rule handleBluetoothCommand_speed)
  have c2: "uint (currentSpeed (handleAll env cs g)) =
     spec_speed_after_all cs (uint (currentSpeed g))"
    by (rule handleAll_speed)
  have b: "0 \<le> uint (currentSpeed (handleAll env cs g))"
    "uint (currentSpeed (handleAll env cs g)) \<le> 255"
    using uint_u8_bounds [of "currentSpeed (handleAll env cs g)"] by blast+
  have i: "0 \<le> speed_inc (currentSpeed g)" "speed_inc (currentSpeed g) \<le> 255"
    using speed_inc_bounds [of "currentSpeed g"] by blast+
  have d: "0 \<le> speed_dec (currentSpeed g)" "speed_dec (currentSpeed g) \<le> 255"
    using speed_dec_bounds [of "currentSpeed g"] by blast+
  have plus: "c = CHR ''+'' \<or> c = CHR ''='' \<longrightarrow>
      uint (currentSpeed (handleBluetoothCommand env c g)) = min 255 (uint (currentSpeed g) + 25)"
    unfolding k by (auto simp add: uint_speed_inc)
  have minus: "c = CHR ''-'' \<or> c = CHR ''_'' \<longrightarrow>
      uint (currentSpeed (handleBluetoothCommand env c g)) = max 0 (uint (currentSpeed g) - 25)"
    unfolding k by (auto simp add: uint_speed_dec)
  have presets: "c = CHR ''1'' \<longrightarrow> currentSpeed (handleBluetoothCommand env c g) = 100"
    "c = CHR ''3'' \<longrightarrow> currentSpeed (handleBluetoothCommand env c g) = 200"
    "c = CHR ''9'' \<longrightarrow> currentSpeed (handleBluetoothCommand env c g) = 255"
    unfolding k by simp_all
  have other: "c \<notin> {CHR ''+'', CHR ''='', CHR ''-'', CHR ''_'', CHR ''1'', CHR ''3'', CHR ''9''} \<longrightarrow>
      currentSpeed (handleBluetoothCommand env c g) = currentSpeed g"
    unfolding k by simp
  from c1 c2 b i d plus minus presets other show ?thesis
    by (intro conjI)
qed

theorem gateway_speed_saturates_witness:
  "uint (currentSpeed (handleBluetoothCommand test_env (CHR ''+'')
      (handleBluetoothCommand test_env (CHR ''+'')
        (handleBluetoothCommand test_env (CHR ''+'') initial_gateway)))) = 255 \<and>
   uint (currentSpeed (handleBluetoothCommand test_env (CHR ''-'')
      (handleBluetoothCommand test_env (CHR ''-'')
        (handleBluetoothCommand test_env (CHR ''-'')
          (handleBluetoothCommand test_env (CHR ''-'')
            (handleBluetoothCommand test_env (CHR ''-'')
              (handleBluetoothCommand test_env (CHR ''1'') initial_gateway))))))) = 0"
proof -
  have s: "currentSpeed initial_gateway = 200" by (simp add: initial_gateway_def)
  have p: "CHR ''+'' = CHR ''+'' \<or> CHR ''+'' = CHR ''=''" by simp
  have m: "CHR ''-'' = CHR ''-'' \<or> CHR ''-'' = CHR ''_''" by simp
  have up: "uint (currentSpeed (handleBluetoothCommand test_env (CHR ''+'') g)) =
      min 255 (uint (currentSpeed g) + 25)" for g
    using gateway_speed_saturates [of test_env "CHR ''+''" g "[]"] p by blast
  have dn: "uint (currentSpeed (handleBluetoothCommand test_env (CHR ''-'') g)) =
      max 0 (uint (currentSpeed g) - 25)" for g
    using gateway_speed_saturates [of test_env "CHR ''-''" g "[]"] m by blast
  have one: "currentSpeed (handleBluetoothCommand test_env (CHR ''1'') g) = 100" for g
    using gateway_speed_saturates [of test_env "CHR ''1''" g "[]"] by blast
  show ?thesis
    by (simp add: up dn one s)
qed

end
